theory Spec2Isabelle
  imports Complex_Main
begin

section \<open>Strings\<close>

text \<open>
  A JavaScript string is modelled as a \<^typ>\<open>string\<close>: one \<^typ>\<open>char\<close> per code unit, for
  the code units below 256. The path functions only ever ask whether a code unit is the
  slash, the colon or white space, and copy every other unit unchanged.
\<close>

definition isWhiteSpace :: "char \<Rightarrow> bool" where
  \<comment> \<open>The white space and line terminators that \<open>String.prototype.trim\<close> strips, below 256:
      TAB, LF, VT, FF, CR, SPACE, NBSP.\<close>
  "isWhiteSpace c = ((of_char c :: nat) \<in> {9, 10, 11, 12, 13, 32, 160})"

definition trim :: "string \<Rightarrow> string" where
  \<comment> \<open>\<open>p.trim()\<close>\<close>
  "trim s = rev (dropWhile isWhiteSpace (rev (dropWhile isWhiteSpace s)))"

fun split :: "char \<Rightarrow> string \<Rightarrow> string list" where
  \<comment> \<open>\<open>p.split(sep)\<close> for a one-character separator: never empty, \<open>"".split("/")\<close> is \<open>[""]\<close>.\<close>
  "split sep [] = [[]]"
| "split sep (c # cs) =
     (if c = sep then [] # split sep cs
      else (c # hd (split sep cs)) # tl (split sep cs))"

fun join :: "string \<Rightarrow> string list \<Rightarrow> string" where
  \<comment> \<open>\<open>segments.join(sep)\<close>\<close>
  "join sep [] = []"
| "join sep [s] = s"
| "join sep (s # t # ss) = s @ sep @ join sep (t # ss)"

definition lowerUnits :: string where
  \<comment> \<open>The code units below 256 whose upper case is one code unit below 256: the letters
      a to z and the letters U+00E0 to U+00FE other than the division sign U+00F7.\<close>
  "lowerUnits =
     ''abcdefghijklmnopqrstuvwxyz'' @
     [CHR 0xE0, CHR 0xE1, CHR 0xE2, CHR 0xE3, CHR 0xE4, CHR 0xE5, CHR 0xE6, CHR 0xE7,
      CHR 0xE8, CHR 0xE9, CHR 0xEA, CHR 0xEB, CHR 0xEC, CHR 0xED, CHR 0xEE, CHR 0xEF,
      CHR 0xF0, CHR 0xF1, CHR 0xF2, CHR 0xF3, CHR 0xF4, CHR 0xF5, CHR 0xF6, CHR 0xF8,
      CHR 0xF9, CHR 0xFA, CHR 0xFB, CHR 0xFC, CHR 0xFD, CHR 0xFE]"

definition upperUnits :: string where
  \<comment> \<open>Their upper case, in the same order: each is 32 below.\<close>
  "upperUnits =
     ''ABCDEFGHIJKLMNOPQRSTUVWXYZ'' @
     [CHR 0xC0, CHR 0xC1, CHR 0xC2, CHR 0xC3, CHR 0xC4, CHR 0xC5, CHR 0xC6, CHR 0xC7,
      CHR 0xC8, CHR 0xC9, CHR 0xCA, CHR 0xCB, CHR 0xCC, CHR 0xCD, CHR 0xCE, CHR 0xCF,
      CHR 0xD0, CHR 0xD1, CHR 0xD2, CHR 0xD3, CHR 0xD4, CHR 0xD5, CHR 0xD6, CHR 0xD8,
      CHR 0xD9, CHR 0xDA, CHR 0xDB, CHR 0xDC, CHR 0xDD, CHR 0xDE]"

definition toUpperCase :: "string \<Rightarrow> string" where
  \<comment> \<open>\<open>method.toUpperCase()\<close>, the default case conversion of Unicode, on code units
      below 256: the units of \<open>lowerUnits\<close> go to those of \<open>upperUnits\<close>, the sharp s U+00DF
      goes to \<open>SS\<close>, every other unit stays. The micro sign U+00B5 and the y with
      diaeresis U+00FF go to U+039C and U+0178, which a \<^typ>\<open>string\<close> does not hold: see
      \<open>upperCaseFits\<close>.\<close>
  "toUpperCase s =
     concat (map (\<lambda>c. if c = CHR 0xDF then ''SS''
                      else case map_of (zip lowerUnits upperUnits) c of
                             Some u \<Rightarrow> [u]
                           | None \<Rightarrow> [c]) s)"


section \<open>PathMerger and PathNormalizer\<close>

text \<open>
  \<^verbatim>\<open>
  private mergePaths(...parts: string[]): string {
    const segments = parts
      .flatMap((p) => p.split('/')) // split all parts by slash
      .filter((p) => p && p.trim()) // remove empty segments
      .map((p) => p.trim());
    return '/' + segments.join('/');
  }
  \<close>
\<close>

definition segments :: "string list \<Rightarrow> string list" where
  "segments parts =
     map trim (filter (\<lambda>p. p \<noteq> [] \<and> trim p \<noteq> []) (concat (map (split CHR ''/'') parts)))"

definition mergePaths :: "string list \<Rightarrow> string" where
  "mergePaths parts = CHR ''/'' # join ''/'' (segments parts)"

text \<open>
  \<^verbatim>\<open>
  private convertColonRoutesToBraces(path: string): string {
    return path.replace(/:([^/]+)/g, (_, param) => `{${param}}`);
  }
  \<close>
  The global replace scans from the left. At a colon followed by at least one unit other
  than the slash, the match takes all units up to the next slash (the quantifier is
  greedy and the class \<open>[^/]\<close> excludes only the slash) and the scan resumes behind it;
  anywhere else the unit is copied.
\<close>

function convertColonRoutesToBraces :: "string \<Rightarrow> string" where
  "convertColonRoutesToBraces [] = []"
| "convertColonRoutesToBraces (c # cs) =
     (if c = CHR '':'' \<and> takeWhile (\<lambda>x. x \<noteq> CHR ''/'') cs \<noteq> []
      then ''{'' @ takeWhile (\<lambda>x. x \<noteq> CHR ''/'') cs @ ''}''
             @ convertColonRoutesToBraces (dropWhile (\<lambda>x. x \<noteq> CHR ''/'') cs)
      else c # convertColonRoutesToBraces cs)"
  by pat_completeness auto
termination
  by (relation "measure length") (auto simp: length_dropWhile_le less_Suc_eq_le)

text \<open>
  The merge as the specification words it: split both fragments on the slash, discard
  the empty segments, rejoin with single slashes behind one leading slash.
\<close>

definition mergeMountPath_spec :: "string \<Rightarrow> string \<Rightarrow> string" where
  "mergeMountPath_spec parentPrefix childPath =
     CHR ''/'' # join ''/''
       (filter (\<lambda>s. s \<noteq> []) (split CHR ''/'' parentPrefix @ split CHR ''/'' childPath))"

section \<open>JavaScript values\<close>

text \<open>
  Values of unknown shape (literals, defaults, examples) and the schema objects the
  translator builds. An object is the list of its own properties in insertion order
  (JavaScript enumerates integer-like keys first; here they keep their place as well). A
  finite number is the real it denotes: the translator copies and compares numbers and
  never computes with them. \<open>NaN\<close> and the infinities are not modelled.
\<close>

datatype jsval =
    JUndefined
  | JNull
  | JBool bool
  | JNum real
  | JStr string
  | JArr "jsval list"
  | JObj "(string \<times> jsval) list"

type_synonym schema = "(string \<times> jsval) list"

fun setProp :: "'k \<Rightarrow> 'v \<Rightarrow> ('k \<times> 'v) list \<Rightarrow> ('k \<times> 'v) list" where
  \<comment> \<open>\<open>obj[k] = v\<close>: an existing property keeps its place, a new one goes last.\<close>
  "setProp k v [] = [(k, v)]"
| "setProp k v ((k', v') # kvs) =
     (if k' = k then (k, v) # kvs else (k', v') # setProp k v kvs)"

definition assignProp :: "string \<Rightarrow> 'v \<Rightarrow> (string \<times> 'v) list \<Rightarrow> (string \<times> 'v) list" where
  \<comment> \<open>\<open>obj[key] = v\<close> for a computed key on an ordinary object. The key \<open>__proto__\<close> is
      the accessor of \<open>Object.prototype\<close>: the assignment sets the prototype of the
      object, or does nothing, and makes no own property. The prototype itself is not
      modelled: the sources enumerate and copy own properties only.\<close>
  "assignProp k v kvs = (if k = ''__proto__'' then kvs else setProp k v kvs)"

definition deleteProp :: "'k \<Rightarrow> ('k \<times> 'v) list \<Rightarrow> ('k \<times> 'v) list" where
  \<comment> \<open>\<open>delete obj[k]\<close>\<close>
  "deleteProp k kvs = filter (\<lambda>kv. fst kv \<noteq> k) kvs"

definition getProp :: "schema \<Rightarrow> string \<Rightarrow> jsval" where
  \<comment> \<open>\<open>obj[k]\<close>: \<open>undefined\<close> for a property the object does not have.\<close>
  "getProp kvs k = (case map_of kvs k of Some v \<Rightarrow> v | None \<Rightarrow> JUndefined)"

section \<open>Validation schema nodes\<close>

text \<open>
  One entry of \<open>def.checks\<close>, reduced to what the translator reads of it. A field typed
  \<open>unknown\<close> in the source is read only behind \<open>typeof ... === "number"\<close>: it is
  \<open>Some n\<close> for a number and \<open>None\<close> when absent or not a number.
\<close>

record check_def =
  cd_format :: "string option"   \<comment> \<open>\<open>check.def.format\<close>\<close>
  cd_check :: "string option"    \<comment> \<open>\<open>check.def.check\<close>\<close>

record check =
  c_def :: "check_def option"    \<comment> \<open>\<open>check.def\<close>, \<open>None\<close> when absent or falsy\<close>
  c_format :: "string option"    \<comment> \<open>\<open>check.format\<close>\<close>
  c_minLength :: "real option"   \<comment> \<open>\<open>check.minLength\<close>, when a number\<close>
  c_maxLength :: "real option"   \<comment> \<open>\<open>check.maxLength\<close>, when a number\<close>
  c_isInt :: bool                \<comment> \<open>\<open>"isInt" in check && check.isInt\<close>\<close>
  c_minValue :: "real option"    \<comment> \<open>\<open>check.minValue\<close>, when a number\<close>
  c_maxValue :: "real option"    \<comment> \<open>\<open>check.maxValue\<close>, when a number\<close>
  c_kind :: "string option"      \<comment> \<open>\<open>check.kind\<close>\<close>
  c_value :: "real option"       \<comment> \<open>\<open>check.value\<close>, when a number\<close>
  c_inclusive :: "bool option"   \<comment> \<open>\<open>check.inclusive\<close>, \<open>None\<close> when absent\<close>
  c_regex :: "string option"     \<comment> \<open>\<open>check.regex.source\<close>, when \<open>check.regex\<close> is a RegExp\<close>

datatype check_entry =
    NonObject        \<comment> \<open>an entry that fails \<open>check && typeof check === "object"\<close>\<close>
  | Check check

datatype 'a field =
    Missing          \<comment> \<open>\<open>undefined\<close>\<close>
  | IsNull           \<comment> \<open>\<open>null\<close>\<close>
  | Present 'a       \<comment> \<open>\<open>{ value: ... }\<close>\<close>

datatype default_value =
    Literal jsval    \<comment> \<open>\<open>def.defaultValue\<close> is a value\<close>
  | Producer jsval   \<comment> \<open>\<open>def.defaultValue\<close> is a function returning the value\<close>

text \<open>
  A node is what \<open>zodSchemaToOpenAPISchema\<close> can be called on. Where a definition is
  found (\<open>_zod.def\<close>, \<open>_def\<close> or \<open>def\<close>), its \<open>type\<close> selects the constructor, and the
  arguments are the properties that branch of the translator reads, in the reading of
  the type assertions of that branch. \<open>Absent\<close> is \<open>undefined\<close> or \<open>null\<close> in the place
  of a schema; \<open>NoDef\<close> is any other value without a definition; \<open>ZOther\<close> is a definition
  whose \<open>type\<close> is none of the tags the translator tests for. An absent list (\<open>shape\<close>,
  \<open>options\<close>, \<open>items\<close>) is read as the empty one, as by \<open>shape || {}\<close> and \<open>options || []\<close>.
  Not modelled are a falsy primitive (\<open>0\<close>, the empty string, \<open>false\<close>) in the place of
  a schema, a shape getter or a default producer that throws, and a schema that contains
  itself: a node is a finite tree.
\<close>

datatype znode =
    Absent
  | NoDef
  | ZString "real option" "real option" "check_entry list option" "string option"
      \<comment> \<open>\<open>schema.minLength\<close>, \<open>schema.maxLength\<close>, \<open>def.checks\<close> when an array, \<open>_zod.bag.format\<close>\<close>
  | ZNumber "check_entry list option"
  | ZInteger "check_entry list option"
  | ZBoolean
  | ZLiteral "jsval list option"          \<comment> \<open>\<open>def.values\<close>\<close>
  | ZEnum "string list option" "string list option" "(string \<times> string) list option"
      \<comment> \<open>\<open>def.values\<close>, \<open>def.options\<close>, \<open>def.entries\<close>\<close>
  | ZArray znode "real field" "real field" "real field"
      \<comment> \<open>\<open>def.element\<close>, \<open>def.exactLength\<close>, \<open>def.minLength\<close>, \<open>def.maxLength\<close>\<close>
  | ZObject "(string \<times> znode) list"      \<comment> \<open>\<open>Object.entries(shape)\<close>\<close>
  | ZOptional znode                       \<comment> \<open>\<open>def.innerType\<close>\<close>
  | ZNullable znode
  | ZDefault znode default_value
  | ZUnion "znode list"                   \<comment> \<open>\<open>def.options\<close>\<close>
  | ZIntersection znode znode             \<comment> \<open>\<open>def.left\<close>, \<open>def.right\<close>\<close>
  | ZRecord znode                         \<comment> \<open>\<open>def.valueType\<close>\<close>
  | ZTuple "znode list" znode             \<comment> \<open>\<open>def.items\<close>, \<open>def.rest\<close>\<close>
  | ZPipe znode                           \<comment> \<open>\<open>def.out\<close>\<close>
  | ZTransform znode                      \<comment> \<open>\<open>def.schema\<close>\<close>
  | ZAny
  | ZUnknown
  | ZVoid
  | ZNull
  | ZUndefined
  | ZDate
  | ZBigInt
  | ZSet znode                            \<comment> \<open>\<open>def.valueType\<close>\<close>
  | ZMap znode
  | ZOther

datatype error = TypeError

section \<open>SchemaTranslator\<close>

definition fallback :: schema where
  \<comment> \<open>\<open>{ type: "object", example: {} }\<close>\<close>
  "fallback = [(''type'', JStr ''object''), (''example'', JObj [])]"

subsection \<open>String checks\<close>

definition stringFormats :: "(string \<times> string \<times> string) list" where
  \<comment> \<open>The format names in the order the source tests them, each with the \<open>format\<close> and
      the \<open>example\<close> it writes.\<close>
  "stringFormats =
     [(''email'', ''email'', ''user@example.com''),
      (''url'', ''uri'', ''https://example.com''),
      (''uuid'', ''uuid'', ''123e4567-e89b-12d3-a456-426614174000''),
      (''datetime'', ''date-time'', ''2023-12-25T10:30:00Z''),
      (''date'', ''date'', ''2023-12-25''),
      (''time'', ''time'', ''10:30:00'')]"

definition setFormat :: "(string \<Rightarrow> bool) \<Rightarrow> schema \<Rightarrow> schema" where
  \<comment> \<open>The if-else chain over the six formats: the first name the test accepts decides.\<close>
  "setFormat test base =
     (case find (\<lambda>f. test (fst f)) stringFormats of
        None \<Rightarrow> base
      | Some (_, fmt, ex) \<Rightarrow> setProp ''example'' (JStr ex) (setProp ''format'' (JStr fmt) base))"

definition setNum :: "string \<Rightarrow> real option \<Rightarrow> schema \<Rightarrow> schema" where
  \<comment> \<open>\<open>if (typeof v === "number") base[k] = v\<close>\<close>
  "setNum k v base = (case v of None \<Rightarrow> base | Some n \<Rightarrow> setProp k (JNum n) base)"

definition stringKind :: "check \<Rightarrow> schema \<Rightarrow> schema" where
  \<comment> \<open>The \<open>switch (check.kind)\<close> of the string branch.\<close>
  "stringKind ch base =
     (case c_kind ch of
        None \<Rightarrow> base
      | Some k \<Rightarrow>
          if k = ''min'' then setNum ''minLength'' (c_value ch) base
          else if k = ''max'' then setNum ''maxLength'' (c_value ch) base
          else if k = ''regex'' then
            (case c_regex ch of None \<Rightarrow> base | Some src \<Rightarrow> setProp ''pattern'' (JStr src) base)
          else setFormat (\<lambda>name. name = k) base)"

definition stringCheck :: "schema \<Rightarrow> check_entry \<Rightarrow> schema" where
  \<comment> \<open>One round of the loop over \<open>def.checks\<close> of a string node.\<close>
  "stringCheck base entry =
     (case entry of
        NonObject \<Rightarrow> base
      | Check ch \<Rightarrow>
          let b1 = (case c_def ch of
                      None \<Rightarrow> base
                    | Some d \<Rightarrow>
                        setFormat (\<lambda>name. cd_format d = Some name \<or> cd_check d = Some name) base);
              b2 = (case c_format ch of
                      None \<Rightarrow> b1
                    | Some f \<Rightarrow> setFormat (\<lambda>name. name = f) b1);
              b3 = setNum ''minLength'' (c_minLength ch) b2;
              b4 = setNum ''maxLength'' (c_maxLength ch) b3
          in stringKind ch b4)"

subsection \<open>Number checks\<close>

definition setInteger :: "schema \<Rightarrow> schema" where
  \<comment> \<open>\<open>base.type = "integer"; base.example = 123;\<close>\<close>
  "setInteger base = setProp ''example'' (JNum 123) (setProp ''type'' (JStr ''integer'') base)"

definition setBound :: "string \<Rightarrow> string \<Rightarrow> check \<Rightarrow> schema \<Rightarrow> schema" where
  \<comment> \<open>\<open>case "min"\<close> and \<open>case "max"\<close> of the switch on \<open>check.kind\<close>:
      \<^verbatim>\<open>if (typeof check.value === "number") {
           base.minimum = check.value;
           if (!check.inclusive) base.exclusiveMinimum = true;
         }\<close>\<close>
  "setBound bound exclusive ch base =
     (case c_value ch of
        None \<Rightarrow> base
      | Some v \<Rightarrow>
          let b = setProp bound (JNum v) base
          in if c_inclusive ch = Some True then b else setProp exclusive (JBool True) b)"

definition numberKind :: "check \<Rightarrow> schema \<Rightarrow> schema" where
  \<comment> \<open>The \<open>switch (check.kind)\<close> of the number branch.\<close>
  "numberKind ch base =
     (case c_kind ch of
        None \<Rightarrow> base
      | Some k \<Rightarrow>
          if k = ''min'' then setBound ''minimum'' ''exclusiveMinimum'' ch base
          else if k = ''max'' then setBound ''maximum'' ''exclusiveMaximum'' ch base
          else if k = ''int'' then setInteger base
          else if k = ''multipleOf'' then setNum ''multipleOf'' (c_value ch) base
          else base)"

definition numberCheck :: "schema \<Rightarrow> check_entry \<Rightarrow> schema" where
  \<comment> \<open>One round of the loop over \<open>def.checks\<close> of a number node.\<close>
  "numberCheck base entry =
     (case entry of
        NonObject \<Rightarrow> base
      | Check ch \<Rightarrow>
          let b1 = (if c_isInt ch then setInteger base else base);
              b2 = (if c_format ch = Some ''safeint'' then setInteger b1 else b1);
              b3 = (case c_minValue ch of
                      None \<Rightarrow> b2
                    | Some v \<Rightarrow>
                        if v > - 9007199254740991 then setProp ''minimum'' (JNum v) b2 else b2);
              b4 = (case c_maxValue ch of
                      None \<Rightarrow> b3
                    | Some v \<Rightarrow>
                        if v < 9007199254740991 then setProp ''maximum'' (JNum v) b3 else b3);
              b5 = (case c_def ch of
                      None \<Rightarrow> b4
                    | Some d \<Rightarrow>
                        if cd_format d = Some ''safeint'' \<or> cd_check d = Some ''int''
                        then setInteger b4 else b4)
          in numberKind ch b5)"

definition integerCheck :: "schema \<Rightarrow> check_entry \<Rightarrow> schema" where
  \<comment> \<open>One round of the loop over \<open>def.checks\<close> of an integer node: only the \<open>kind\<close> switch,
      with the cases \<open>min\<close>, \<open>max\<close> and \<open>multipleOf\<close>.\<close>
  "integerCheck base entry =
     (case entry of
        NonObject \<Rightarrow> base
      | Check ch \<Rightarrow>
          (case c_kind ch of
             None \<Rightarrow> base
           | Some k \<Rightarrow>
               if k = ''min'' then setBound ''minimum'' ''exclusiveMinimum'' ch base
               else if k = ''max'' then setBound ''maximum'' ''exclusiveMaximum'' ch base
               else if k = ''multipleOf'' then setNum ''multipleOf'' (c_value ch) base
               else base))"

definition runChecks ::
  "(schema \<Rightarrow> check_entry \<Rightarrow> schema) \<Rightarrow> check_entry list option \<Rightarrow> schema \<Rightarrow> schema" where
  \<comment> \<open>\<open>if (def.checks && Array.isArray(def.checks)) for (const check of def.checks) ...\<close>\<close>
  "runChecks step cs base = (case cs of None \<Rightarrow> base | Some entries \<Rightarrow> foldl step base entries)"

subsection \<open>The translator\<close>

fun sequence :: "(error + 'a) list \<Rightarrow> error + 'a list" where
  \<comment> \<open>The results of translating a list of nodes from left to right: the first exception
      leaves the loop.\<close>
  "sequence [] = Inr []"
| "sequence (r # rs) =
     (case r of
        Inl e \<Rightarrow> Inl e
      | Inr x \<Rightarrow> (case sequence rs of Inl e \<Rightarrow> Inl e | Inr xs \<Rightarrow> Inr (x # xs)))"

definition isOptionalOrDefault :: "znode \<Rightarrow> bool" where
  \<comment> \<open>The negation of \<open>propDef?.type !== "optional" && propDef?.type !== "default"\<close>.\<close>
  "isOptionalOrDefault n = (case n of ZOptional _ \<Rightarrow> True | ZDefault _ _ \<Rightarrow> True | _ \<Rightarrow> False)"

definition requiredKeys :: "(string \<times> znode) list \<Rightarrow> string list" where
  \<comment> \<open>The \<open>required\<close> array after the loop over the shape.\<close>
  "requiredKeys shape = map fst (filter (\<lambda>kv. \<not> isOptionalOrDefault (snd kv)) shape)"

definition objectSchema :: "string list \<Rightarrow> (string \<times> schema) list \<Rightarrow> schema" where
  \<comment> \<open>What the object branch builds once every field is translated: \<open>props\<close> are the pairs
      of key and translated field in the order of the shape.\<close>
  "objectSchema required props =
     (let properties = foldl (\<lambda>acc kv. assignProp (fst kv) (JObj (snd kv)) acc) [] props;
          result = [(''type'', JStr ''object''), (''properties'', JObj properties)];
          result1 = (if required \<noteq> [] then setProp ''required'' (JArr (map JStr required)) result
                     else result);
          exampleObj = foldl (\<lambda>acc kv.
                          case kv of
                            (key, JObj prop) \<Rightarrow>
                              if getProp prop ''example'' \<noteq> JUndefined
                              then assignProp key (getProp prop ''example'') acc else acc
                          | _ \<Rightarrow> acc) [] properties
      in if exampleObj \<noteq> [] then setProp ''example'' (JObj exampleObj) result1 else result1)"

definition arrayLengths :: "real field \<Rightarrow> real field \<Rightarrow> real field \<Rightarrow> schema \<Rightarrow> error + schema" where
  \<comment> \<open>The length constraints of the array branch. Each test is \<open>!== undefined\<close>, so \<open>null\<close>
      passes it and the read of \<open>.value\<close> behind it throws.\<close>
  "arrayLengths exactLength minLength maxLength base =
     (case exactLength of
        Present n \<Rightarrow> Inr (setProp ''maxItems'' (JNum n) (setProp ''minItems'' (JNum n) base))
      | IsNull \<Rightarrow> Inl TypeError
      | Missing \<Rightarrow>
          (case minLength of
             IsNull \<Rightarrow> Inl TypeError
           | _ \<Rightarrow>
              let b = (case minLength of Present n \<Rightarrow> setProp ''minItems'' (JNum n) base | _ \<Rightarrow> base)
              in (case maxLength of
                    IsNull \<Rightarrow> Inl TypeError
                  | Present n \<Rightarrow> Inr (setProp ''maxItems'' (JNum n) b)
                  | Missing \<Rightarrow> Inr b)))"

definition tupleSchema :: "schema list \<Rightarrow> schema option \<Rightarrow> schema" where
  \<comment> \<open>What the tuple branch builds from the translated items and the translated rest.\<close>
  "tupleSchema items rest =
     (let result =
            [(''type'', JStr ''array''),
             (''items'', (case items of [item] \<Rightarrow> JObj item
                          | _ \<Rightarrow> JObj [(''anyOf'', JArr (map JObj items))])),
             (''minItems'', JNum (real (length items))),
             (''maxItems'', JNum (real (length items))),
             (''example'', JArr (map (\<lambda>item. getProp item ''example'') items))]
      in case rest of
           None \<Rightarrow> result
         | Some r \<Rightarrow> deleteProp ''maxItems'' (setProp ''additionalItems'' (JObj r) result))"

fun zodSchemaToOpenAPISchema :: "znode \<Rightarrow> error + schema" where
  "zodSchemaToOpenAPISchema Absent = Inl TypeError"
    \<comment> \<open>\<open>schemaWithDef._zod\<close> on \<open>undefined\<close> or \<open>null\<close>\<close>
| "zodSchemaToOpenAPISchema NoDef = Inr fallback"
| "zodSchemaToOpenAPISchema (ZString minLength maxLength checks bagFormat) =
     (let base = [(''type'', JStr ''string''), (''example'', JStr ''string'')];
          b1 = setNum ''minLength'' minLength base;
          b2 = setNum ''maxLength'' maxLength b1;
          b3 = runChecks stringCheck checks b2
      in Inr (if bagFormat = Some ''email''
              then setProp ''example'' (JStr ''user@example.com'') (setProp ''format'' (JStr ''email'') b3)
              else b3))"
| "zodSchemaToOpenAPISchema (ZNumber checks) =
     Inr (runChecks numberCheck checks [(''type'', JStr ''number''), (''example'', JNum 123.45)])"
| "zodSchemaToOpenAPISchema (ZInteger checks) =
     Inr (runChecks integerCheck checks [(''type'', JStr ''integer''), (''example'', JNum 123)])"
| "zodSchemaToOpenAPISchema ZBoolean =
     Inr [(''type'', JStr ''boolean''), (''example'', JBool True)]"
| "zodSchemaToOpenAPISchema (ZLiteral values) =
     (let v = (case values of Some (x # _) \<Rightarrow> x | _ \<Rightarrow> JUndefined)
      in Inr (case v of
                JStr _ \<Rightarrow> [(''type'', JStr ''string''), (''enum'', JArr [v]), (''example'', v)]
              | JNum _ \<Rightarrow> [(''type'', JStr ''number''), (''enum'', JArr [v]), (''example'', v)]
              | JBool _ \<Rightarrow> [(''type'', JStr ''boolean''), (''enum'', JArr [v]), (''example'', v)]
              | _ \<Rightarrow> [(''const'', v), (''example'', v)]))"
| "zodSchemaToOpenAPISchema (ZEnum values options entries) =
     (let vs = (case values of
                  Some xs \<Rightarrow> xs
                | None \<Rightarrow>
                    (case options of
                       Some xs \<Rightarrow> xs
                     | None \<Rightarrow> (case entries of Some kvs \<Rightarrow> map snd kvs | None \<Rightarrow> [])))
      in Inr [(''type'', JStr ''string''),
              (''enum'', JArr (map JStr vs)),
              (''example'', JStr (case vs of x # _ \<Rightarrow> if x = [] then ''option'' else x
                                  | [] \<Rightarrow> ''option''))])"
| "zodSchemaToOpenAPISchema (ZArray element exactLength minLength maxLength) =
     (case zodSchemaToOpenAPISchema (if element = Absent then NoDef else element) of
        Inl e \<Rightarrow> Inl e
      | Inr itemSchema \<Rightarrow>
          arrayLengths exactLength minLength maxLength
            [(''type'', JStr ''array''),
             (''items'', JObj itemSchema),
             (''example'', JArr [getProp itemSchema ''example''])])"
    \<comment> \<open>\<open>def.element || def.type || def.items\<close>: with no element the item type is
        \<open>def.type\<close>, the string \<open>array\<close>, a value without a definition.\<close>
| "zodSchemaToOpenAPISchema (ZObject shape) =
     (case sequence (map (\<lambda>kv. case zodSchemaToOpenAPISchema (snd kv) of
                                   Inl e \<Rightarrow> Inl e
                                 | Inr propSchema \<Rightarrow> Inr (fst kv, propSchema)) shape) of
        Inl e \<Rightarrow> Inl e
      | Inr props \<Rightarrow> Inr (objectSchema (requiredKeys shape) props))"
| "zodSchemaToOpenAPISchema (ZOptional innerType) =
     (case zodSchemaToOpenAPISchema innerType of
        Inl e \<Rightarrow> Inl e
      | Inr innerSchema \<Rightarrow> Inr (setProp ''nullable'' (JBool True) innerSchema))"
| "zodSchemaToOpenAPISchema (ZNullable innerType) =
     (case zodSchemaToOpenAPISchema innerType of
        Inl e \<Rightarrow> Inl e
      | Inr innerSchema \<Rightarrow> Inr (setProp ''nullable'' (JBool True) innerSchema))"
| "zodSchemaToOpenAPISchema (ZDefault innerType defaultValue) =
     (case zodSchemaToOpenAPISchema innerType of
        Inl e \<Rightarrow> Inl e
      | Inr innerSchema \<Rightarrow>
          Inr (setProp ''default''
                 (case defaultValue of Literal v \<Rightarrow> v | Producer v \<Rightarrow> v) innerSchema))"
| "zodSchemaToOpenAPISchema (ZUnion options) =
     (case sequence (map zodSchemaToOpenAPISchema options) of
        Inl e \<Rightarrow> Inl e
      | Inr os \<Rightarrow> Inr [(''anyOf'', JArr (map JObj os))])"
| "zodSchemaToOpenAPISchema (ZIntersection left right) =
     (case zodSchemaToOpenAPISchema left of
        Inl e \<Rightarrow> Inl e
      | Inr l \<Rightarrow>
          (case zodSchemaToOpenAPISchema right of
             Inl e \<Rightarrow> Inl e
           | Inr r \<Rightarrow> Inr [(''allOf'', JArr [JObj l, JObj r])]))"
| "zodSchemaToOpenAPISchema (ZRecord valueType) =
     (case (if valueType = Absent
            then Inr [(''type'', JStr ''string''), (''example'', JStr ''value'')]
            else zodSchemaToOpenAPISchema valueType) of
        Inl e \<Rightarrow> Inl e
      | Inr valueSchema \<Rightarrow>
          Inr [(''type'', JStr ''object''),
               (''additionalProperties'', JObj valueSchema),
               (''example'', JObj [(''key'', getProp valueSchema ''example'')])])"
| "zodSchemaToOpenAPISchema (ZTuple items rest) =
     (case sequence (map zodSchemaToOpenAPISchema items) of
        Inl e \<Rightarrow> Inl e
      | Inr is \<Rightarrow>
          if rest = Absent then Inr (tupleSchema is None)
          else (case zodSchemaToOpenAPISchema rest of
                  Inl e \<Rightarrow> Inl e
                | Inr r \<Rightarrow> Inr (tupleSchema is (Some r))))"
| "zodSchemaToOpenAPISchema (ZPipe out) = zodSchemaToOpenAPISchema out"
| "zodSchemaToOpenAPISchema (ZTransform inputSchema) = zodSchemaToOpenAPISchema inputSchema"
| "zodSchemaToOpenAPISchema ZAny = Inr [(''example'', JStr ''any value'')]"
| "zodSchemaToOpenAPISchema ZUnknown = Inr [(''example'', JStr ''unknown value'')]"
| "zodSchemaToOpenAPISchema ZVoid = Inr [(''type'', JStr ''null'')]"
| "zodSchemaToOpenAPISchema ZNull = Inr [(''type'', JStr ''null''), (''example'', JNull)]"
| "zodSchemaToOpenAPISchema ZUndefined = Inr [(''type'', JStr ''null''), (''example'', JNull)]"
| "zodSchemaToOpenAPISchema ZDate =
     Inr [(''type'', JStr ''string''), (''format'', JStr ''date-time''),
          (''example'', JStr ''2023-12-25T10:30:00Z'')]"
| "zodSchemaToOpenAPISchema ZBigInt =
     Inr [(''type'', JStr ''integer''), (''format'', JStr ''int64''),
          (''example'', JNum 9223372036854775808)]"
    \<comment> \<open>The literal \<open>9223372036854775807\<close> denotes the nearest double, which is \<open>2^63\<close>.\<close>
| "zodSchemaToOpenAPISchema (ZSet valueType) =
     (case zodSchemaToOpenAPISchema valueType of
        Inl e \<Rightarrow> Inl e
      | Inr itemSchema \<Rightarrow>
          Inr [(''type'', JStr ''array''),
               (''items'', JObj itemSchema),
               (''uniqueItems'', JBool True),
               (''example'', JArr [getProp itemSchema ''example''])])"
| "zodSchemaToOpenAPISchema (ZMap valueType) =
     (case zodSchemaToOpenAPISchema valueType of
        Inl e \<Rightarrow> Inl e
      | Inr valueSchema \<Rightarrow>
          Inr [(''type'', JStr ''object''),
               (''additionalProperties'', JObj valueSchema),
               (''example'', JObj [(''key'', getProp valueSchema ''example'')])])"
| "zodSchemaToOpenAPISchema ZOther = Inr fallback"

section \<open>Route handlers and their metadata\<close>

text \<open>
  \<open>EndpointDocs\<close>, the argument of \<open>openapi(...)\<close>. Every field is optional. A response's
  content maps a media type to a media value; of the media value only
  \<open>mediaValue && mediaValue.schema\<close> is read, so it is \<open>Some\<close> schema or \<open>None\<close>.
\<close>

record response_doc =
  r_description :: "string option"
  r_content :: "(string \<times> jsval option) list option"

record endpoint_docs =
  d_hide :: "bool option"
  d_method :: "string option"
  d_path :: "string option"
  d_summary :: "string option"
  d_description :: "string option"
  d_tags :: "string list option"
  d_responses :: "(string \<times> response_doc option) list option"
    \<comment> \<open>\<open>Object.entries(responses)\<close>; a falsy entry is \<open>None\<close>\<close>

datatype validation_schema =
    NoSchema                    \<comment> \<open>\<open>metadata.schema\<close> is \<open>undefined\<close> or \<open>null\<close>\<close>
  | SchemaObject schema         \<comment> \<open>a plain object\<close>
  | ParameterArray "jsval list" \<comment> \<open>an array\<close>

text \<open>
  A \<open>YelixHonoMiddleware\<close>: its name and, of its metadata, the properties that
  \<open>loadEndpointDocs\<close> reads. A handler is such an object or a plain function.
\<close>

record middleware =
  m_name :: string
  m_yelixKeys :: "string list option"       \<comment> \<open>\<open>metadata._yelixKeys\<close>\<close>
  m_endpointDocs :: "endpoint_docs option"  \<comment> \<open>\<open>metadata.endpointDocs\<close>\<close>
  m_from :: "string option"                 \<comment> \<open>\<open>metadata.from\<close>, when a string\<close>
  m_schema :: validation_schema             \<comment> \<open>\<open>metadata.schema\<close>\<close>

datatype handler = Fn | Mw middleware

definition hasKey :: "string \<Rightarrow> middleware \<Rightarrow> bool" where
  \<comment> \<open>\<open>x?.metadata?._yelixKeys?.includes(key)\<close>\<close>
  "hasKey key m = (case m_yelixKeys m of None \<Rightarrow> False | Some ks \<Rightarrow> key \<in> set ks)"

definition getMiddlewareByKey :: "string \<Rightarrow> handler list \<Rightarrow> middleware option" where
  \<comment> \<open>\<open>handlers.filter((h) => h instanceof YelixHonoMiddleware).find(...)\<close>\<close>
  "getMiddlewareByKey key handlers =
     find (hasKey key) (concat (map (\<lambda>h. case h of Mw m \<Rightarrow> [m] | Fn \<Rightarrow> []) handlers))"

definition getMiddlewaresByKey :: "string \<Rightarrow> handler list \<Rightarrow> middleware list" where
  \<comment> \<open>\<open>handlers.filter((h) => !!h?.name).filter(...)\<close>: a plain function has no metadata
      and fails the second filter.\<close>
  "getMiddlewaresByKey key handlers =
     filter (hasKey key)
       (filter (\<lambda>m. m_name m \<noteq> []) (concat (map (\<lambda>h. case h of Mw m \<Rightarrow> [m] | Fn \<Rightarrow> []) handlers)))"

section \<open>Endpoint descriptors\<close>

text \<open>
  Modelled from the spec: the \<open>EndpointBuilder\<close> of the package \<open>@yelix/openapi\<close>, which is
  not part of the sources. It is the Endpoint Descriptor of the data model: every setter
  (\<open>setMethod\<close>, \<open>setPath\<close>, \<open>setSummary\<close>, \<open>setDescription\<close>, \<open>setTags\<close>, \<open>setResponses\<close>,
  \<open>setRawRequestBodyContent\<close>, \<open>addRawParameter\<close>) stores its argument in the field of its
  name and none throws.
\<close>

record response =
  rs_description :: string
  rs_content :: "(string \<times> jsval) list option"

record endpoint =
  e_method :: string
  e_path :: string
  e_summary :: string
  e_description :: string
  e_tags :: "string list"
  e_responses :: "(string \<times> response) list option"
  e_requestBody :: "schema option"
  e_parameters :: "jsval list"

definition createEndpointBuilder :: endpoint where
  "createEndpointBuilder =
     \<lparr>e_method = [], e_path = [], e_summary = [], e_description = [], e_tags = [],
      e_responses = None, e_requestBody = None, e_parameters = []\<rparr>"

section \<open>The application\<close>

text \<open>
  Endpoint builders are objects: \<open>route\<close> writes to the builders of the mounted instance
  and pushes the same objects on the parent's array. The state is therefore a store of
  builders by address, and every \<open>YelixHono\<close> instance holds the addresses in its
  \<open>__endpoints\<close> array. Of the wrapped \<open>Hono\<close> router the state keeps the calls made on it.
\<close>

type_synonym ref = nat
type_synonym app = nat

datatype wrapped =
    Ensured "string option"   \<comment> \<open>\<open>this.ensureMiddleware(name, handler)\<close>\<close>

datatype hono_call =
    HonoVerb string string "wrapped list"   \<comment> \<open>\<open>this.hono.get(path, ...)\<close> and its siblings\<close>
  | HonoAll string "wrapped list"           \<comment> \<open>\<open>this.hono.all(path, ...)\<close>\<close>
  | HonoOn string string "wrapped list"     \<comment> \<open>\<open>this.hono.on(method, path, ...)\<close>\<close>
  | HonoRoute string "app option"           \<comment> \<open>\<open>this.hono.route(path, ...)\<close>\<close>

record info =
  title :: string
  description :: string
  version :: string

record world =
  heap :: "ref \<Rightarrow> endpoint"          \<comment> \<open>the builders, by address\<close>
  next_ref :: ref                     \<comment> \<open>the next address to allocate\<close>
  endpoints :: "app \<Rightarrow> ref list"      \<comment> \<open>\<open>__endpoints\<close> of every instance\<close>
  hono :: "app \<Rightarrow> hono_call list"     \<comment> \<open>the calls made on \<open>this.hono\<close>\<close>
  openapi :: "app \<Rightarrow> info"            \<comment> \<open>title, description and version of \<open>__openapi\<close>\<close>

definition orElse :: "string option \<Rightarrow> string \<Rightarrow> string" where
  \<comment> \<open>\<open>x || d\<close> for an optional string: the empty string is falsy.\<close>
  "orElse x d = (case x of None \<Rightarrow> d | Some s \<Rightarrow> if s = [] then d else s)"

function decimal :: "nat \<Rightarrow> string" where
  \<comment> \<open>The property name of an array index.\<close>
  "decimal n =
     (if n < 10 then [''0123456789'' ! n]
      else decimal (n div 10) @ [''0123456789'' ! (n mod 10)])"
  by pat_completeness auto
termination
  by (relation "measure id") auto

definition assign :: "schema \<Rightarrow> validation_schema \<Rightarrow> schema" where
  \<comment> \<open>\<open>Object.assign(json, schema)\<close>: the own properties of the source, in order; an array
      has its indices as properties.\<close>
  "assign json src =
     (case src of
        NoSchema \<Rightarrow> json
      | SchemaObject kvs \<Rightarrow> foldl (\<lambda>acc kv. assignProp (fst kv) (snd kv) acc) json kvs
      | ParameterArray xs \<Rightarrow>
          foldl (\<lambda>acc kv. assignProp (fst kv) (snd kv) acc) json
            (zip (map decimal [0 ..< length xs]) xs))"

definition validationStep ::
  "bool \<times> schema \<times> jsval list \<Rightarrow> middleware \<Rightarrow> bool \<times> schema \<times> jsval list" where
  \<comment> \<open>One round of the loop over the request validations; the state is \<open>haveJson\<close>, \<open>json\<close>
      and \<open>parameters\<close> (\<open>haveParameter\<close> only guards a loop over \<open>parameters\<close>). Before the
      push, the argument of the log call reads \<open>p.name\<close> of every element: on \<open>undefined\<close>
      or \<open>null\<close> that throws inside the \<open>try\<close> and the push is not reached.\<close>
  "validationStep st requestValidation =
     (case st of (haveJson, json, parameters) \<Rightarrow>
        if m_from requestValidation = Some ''json'' \<or> m_from requestValidation = Some ''form''
        then (True, assign json (m_schema requestValidation), parameters)
        else if (case m_from requestValidation of
                   None \<Rightarrow> False
                 | Some f \<Rightarrow> f \<in> set [''query'', ''header'', ''cookie'', ''path'', ''param''])
        then (case m_schema requestValidation of
                ParameterArray ps \<Rightarrow>
                  if list_ex (\<lambda>p. p = JUndefined \<or> p = JNull) ps
                  then (haveJson, json, parameters)
                  else (haveJson, json, parameters @ ps)
              | _ \<Rightarrow> (haveJson, json, parameters))
        else (haveJson, json, parameters))"

definition transformContent :: "(string \<times> jsval option) list \<Rightarrow> (string \<times> jsval) list" where
  \<comment> \<open>The inner \<open>reduce\<close>: \<open>if (mediaValue && mediaValue.schema) contentAcc[mediaType] = { schema }\<close>\<close>
  "transformContent content =
     foldl (\<lambda>acc kv. case snd kv of
                        None \<Rightarrow> acc
                      | Some sch \<Rightarrow> assignProp (fst kv) (JObj [(''schema'', sch)]) acc) [] content"

definition transformResponses :: "(string \<times> response_doc option) list \<Rightarrow> (string \<times> response) list" where
  \<comment> \<open>The outer \<open>reduce\<close> over \<open>Object.entries(responses)\<close>.\<close>
  "transformResponses responses =
     foldl (\<lambda>acc kv. case snd kv of
                        None \<Rightarrow> acc
                      | Some r \<Rightarrow>
                          assignProp (fst kv)
                            \<lparr>rs_description = orElse (r_description r) (''HTTP '' @ fst kv @ '' response''),
                             rs_content = map_option transformContent (r_content r)\<rparr> acc)
       [] responses"

definition docsOf :: "handler list \<Rightarrow> endpoint_docs option" where
  \<comment> \<open>\<open>openapi?.metadata.endpointDocs\<close> for the middleware found under the key \<open>openapi\<close>\<close>
  "docsOf handlers =
     (case getMiddlewareByKey ''openapi'' handlers of None \<Rightarrow> None | Some m \<Rightarrow> m_endpointDocs m)"

definition hidden :: "endpoint_docs option \<Rightarrow> bool" where
  \<comment> \<open>\<open>endpointDocs?.hide\<close>\<close>
  "hidden docs = (case docs of None \<Rightarrow> False | Some d \<Rightarrow> d_hide d = Some True)"

text \<open>
  \<open>loadEndpointDocs(_path, _method, ...handlers)\<close>, without its logging:
  \<^verbatim>\<open>
    const openapi = this.getMiddlewareByKey('openapi', ...handlers);
    const endpointDocs = openapi?.metadata.endpointDocs! as EndpointDocs;
    const requestValidations = this.getMiddlewaresByKey('requestValidation', ...handlers);
    let haveJson = false, json = {}, haveParameter = false;
    const parameters = [];
    for (const requestValidation of requestValidations) {
      const from = requestValidation.metadata.from;
      const schema = requestValidation.metadata.schema;
      if (from === 'json' || from === 'form') {
        haveJson = true;
        try { json = Object.assign(json, schema); } catch (error) { }
      } else if (['query', 'header', 'cookie', 'path', 'param'].includes(from)) {
        haveParameter = true;
        try { if (Array.isArray(schema)) parameters.push(...schema); } catch (error) { }
      }
    }
    if (endpointDocs?.hide) return;
    const openapiFriendlyPath = this.convertColonRoutesToBraces(endpointDocs?.path || _path);
    const method = endpointDocs?.method || _method;
    const summary = endpointDocs?.summary || `${method.toUpperCase()} ${_path}`;
    const responses = endpointDocs?.responses || null;
    try {
      const endpointPath = createEndpointBuilder()
        .setMethod(endpointDocs?.method || method)
        .setPath(openapiFriendlyPath)
        .setSummary(summary)
        .setDescription(endpointDocs?.description || '')
        .setTags(endpointDocs?.tags || []);
      if (responses) endpointPath.setResponses(transformedResponses);
      if (haveJson) endpointPath.setRawRequestBodyContent(json);
      if (haveParameter) parameters.forEach((parameter) => endpointPath.addRawParameter(parameter));
      this.__endpoints.push(endpointPath);
    } catch (error) { }
  \<close>
\<close>

definition buildEndpoint :: "string \<Rightarrow> string \<Rightarrow> handler list \<Rightarrow> endpoint" where
  \<comment> \<open>The builder that \<open>loadEndpointDocs\<close> pushes for a route that is not hidden.\<close>
  "buildEndpoint path0 method0 handlers =
     (let endpointDocs = docsOf handlers;
          requestValidations = getMiddlewaresByKey ''requestValidation'' handlers;
          (haveJson, json, parameters) = foldl validationStep (False, [], []) requestValidations;
          openapiFriendlyPath =
            convertColonRoutesToBraces (orElse (Option.bind endpointDocs d_path) path0);
          method = orElse (Option.bind endpointDocs d_method) method0;
          summary = orElse (Option.bind endpointDocs d_summary) (toUpperCase method @ '' '' @ path0);
          responses = Option.bind endpointDocs d_responses
      in \<lparr>e_method = orElse (Option.bind endpointDocs d_method) method,
          e_path = openapiFriendlyPath,
          e_summary = summary,
          e_description = orElse (Option.bind endpointDocs d_description) [],
          e_tags = (case Option.bind endpointDocs d_tags of None \<Rightarrow> [] | Some ts \<Rightarrow> ts),
          e_responses = map_option transformResponses responses,
          e_requestBody = (if haveJson then Some json else None),
          e_parameters = parameters\<rparr>)"

definition push :: "world \<Rightarrow> app \<Rightarrow> endpoint \<Rightarrow> world" where
  \<comment> \<open>A new builder is allocated and \<open>this.__endpoints.push(endpointPath)\<close>.\<close>
  "push w this e =
     w\<lparr>heap := (heap w)(next_ref w := e),
       next_ref := Suc (next_ref w),
       endpoints := (endpoints w)(this := endpoints w this @ [next_ref w])\<rparr>"

definition loadEndpointDocs :: "world \<Rightarrow> app \<Rightarrow> string \<Rightarrow> string \<Rightarrow> handler list \<Rightarrow> world" where
  "loadEndpointDocs w this path0 method0 handlers =
     (if hidden (docsOf handlers) then w
      else push w this (buildEndpoint path0 method0 handlers))"

definition parseMiddlewares :: "handler list \<Rightarrow> bool \<Rightarrow> wrapped list" where
  \<comment> \<open>With \<open>updateNameForHandler\<close> the last handler is first replaced by a middleware named
      \<open>handler\<close>; then every handler is wrapped by \<open>ensureMiddleware\<close> under its name, a plain
      function under \<open>null\<close>.\<close>
  "parseMiddlewares middlewares updateNameForHandler =
     (if middlewares = [] then []
      else map (\<lambda>h. case h of Mw m \<Rightarrow> Ensured (Some (m_name m)) | Fn \<Rightarrow> Ensured None)
             (if updateNameForHandler
              then butlast middlewares @
                     [Mw \<lparr>m_name = ''handler'', m_yelixKeys = Some [''handler''],
                          m_endpointDocs = None, m_from = None, m_schema = NoSchema\<rparr>]
              else middlewares))"

definition callHono :: "world \<Rightarrow> app \<Rightarrow> hono_call \<Rightarrow> world" where
  "callHono w this c = w\<lparr>hono := (hono w)(this := hono w this @ [c])\<rparr>"

definition verb :: "string \<Rightarrow> world \<Rightarrow> app \<Rightarrow> string \<Rightarrow> handler list \<Rightarrow> world" where
  \<comment> \<open>\<open>post\<close>, \<open>get\<close>, \<open>delete\<close>, \<open>put\<close>, \<open>patch\<close> and \<open>options\<close>, which differ in the method
      name only:
      \<^verbatim>\<open>this.loadEndpointDocs(path, 'get', ...handlers);
         const middlewareHandlers = this.parseMiddlewares(handlers, true);
         this.hono.get(path, ...middlewareHandlers);\<close>\<close>
  "verb method w this path0 handlers =
     callHono (loadEndpointDocs w this path0 method handlers) this
       (HonoVerb method path0 (parseMiddlewares handlers True))"

definition all_methods :: "world \<Rightarrow> app \<Rightarrow> string \<Rightarrow> handler list \<Rightarrow> world" where
  \<comment> \<open>\<open>all\<close>\<close>
  "all_methods w this path0 handlers =
     callHono
       (foldl (\<lambda>w' method. loadEndpointDocs w' this path0 method handlers) w
          [''post'', ''get'', ''put'', ''delete'', ''patch'', ''options''])
       this (HonoAll path0 (parseMiddlewares handlers True))"

definition on_method :: "world \<Rightarrow> app \<Rightarrow> string \<Rightarrow> string \<Rightarrow> handler list \<Rightarrow> world" where
  \<comment> \<open>\<open>on\<close>\<close>
  "on_method w this method path0 handlers =
     callHono (loadEndpointDocs w this path0 method handlers) this
       (HonoOn method path0 (parseMiddlewares handlers True))"

datatype mountable =
    Yelix app     \<comment> \<open>\<open>instance instanceof YelixHono\<close>\<close>
  | PlainHono

definition rewritePath :: "string \<Rightarrow> endpoint \<Rightarrow> endpoint" where
  \<comment> \<open>The body of the loop of \<open>route\<close>:
      \<^verbatim>\<open>const merged = this.mergePaths(path, endpoint.path);
         endpoint.setPath(this.convertColonRoutesToBraces(merged));\<close>\<close>
  "rewritePath prefix e = e\<lparr>e_path := convertColonRoutesToBraces (mergePaths [prefix, e_path e])\<rparr>"

text \<open>
  \<^verbatim>\<open>
  route(path: string, instance: YelixHono | Hono): this {
    if (instance instanceof YelixHono) {
      this.hono.route(path, instance.hono);
      const endpoints = instance.__endpoints;
      for (const endpoint of endpoints) {
        const ePath = endpoint.path;
        const merged = this.mergePaths(path, ePath);
        const openapiFriendlyPath = this.convertColonRoutesToBraces(merged);
        endpoint.setPath(openapiFriendlyPath);
      }
      this.__endpoints.push(...endpoints);
    } else {
      this.hono.route(path, instance);
    }
    return this;
  }
  \<close>
\<close>

definition route :: "world \<Rightarrow> app \<Rightarrow> string \<Rightarrow> mountable \<Rightarrow> world" where
  "route w this prefix inst =
     (case inst of
        Yelix child \<Rightarrow>
          let w1 = callHono w this (HonoRoute prefix (Some child));
              eps = endpoints w1 child;
              w2 = w1\<lparr>heap := foldl (\<lambda>h r. h(r := rewritePath prefix (h r))) (heap w1) eps\<rparr>
          in w2\<lparr>endpoints := (endpoints w2)(this := endpoints w2 this @ eps)\<rparr>
      | PlainHono \<Rightarrow> callHono w this (HonoRoute prefix None))"

section \<open>DocumentAssembler\<close>

text \<open>
  Modelled from the spec: \<open>addEndpoints\<close> and \<open>getJSON\<close> of the class \<open>OpenAPI\<close> of the package
  \<open>@yelix/openapi\<close>, which is not part of the sources. The assembly groups the descriptors
  by path, then by method; an operation carries summary, description, tags, parameters,
  request body and responses. It is a fold that reads the descriptors and writes nothing.
\<close>

record operation =
  o_summary :: string
  o_description :: string
  o_tags :: "string list"
  o_parameters :: "jsval list"
  o_requestBody :: "schema option"
  o_responses :: "(string \<times> response) list option"

record document =
  doc_info :: info
  doc_paths :: "(string \<times> (string \<times> operation) list) list"

definition operationOf :: "endpoint \<Rightarrow> operation" where
  "operationOf e =
     \<lparr>o_summary = e_summary e, o_description = e_description e, o_tags = e_tags e,
      o_parameters = e_parameters e, o_requestBody = e_requestBody e,
      o_responses = e_responses e\<rparr>"

definition addEndpoint ::
  "(string \<times> (string \<times> operation) list) list \<Rightarrow> endpoint \<Rightarrow> (string \<times> (string \<times> operation) list) list" where
  "addEndpoint paths e =
     setProp (e_path e)
       (setProp (e_method e) (operationOf e)
          (case map_of paths (e_path e) of None \<Rightarrow> [] | Some ops \<Rightarrow> ops))
       paths"

definition assemble :: "info \<Rightarrow> endpoint list \<Rightarrow> document" where
  "assemble i descriptors = \<lparr>doc_info = i, doc_paths = foldl addEndpoint [] descriptors\<rparr>"

text \<open>
  \<^verbatim>\<open>
  getOpenAPI(): OpenAPICore {
    const clone = Object.assign(
      Object.create(Object.getPrototypeOf(this.__openapi)), this.__openapi);
    clone.addEndpoints(this.__endpoints);
    return clone.getJSON();
  }
  \<close>
  The function returns the document and the state it leaves. The source itself assigns
  nothing; it hands a shallow clone of \<open>__openapi\<close> and the live \<open>__endpoints\<close> array to the
  two calls of the package. That those calls write nothing is the word of the spec, and
  the state returned here is unchanged on that word alone.
\<close>

definition getOpenAPI :: "world \<Rightarrow> app \<Rightarrow> document \<times> world" where
  "getOpenAPI w this = (assemble (openapi w this) (map (heap w) (endpoints w this)), w)"

text \<open>
  \<open>new YelixHono()\<close>: no endpoint, no call on the router yet, and the document
  information the constructor sets. In the initial state every instance is new.
\<close>

definition initial :: world where
  "initial =
     \<lparr>heap = (\<lambda>_. createEndpointBuilder),
      next_ref = 0,
      endpoints = (\<lambda>_. []),
      hono = (\<lambda>_. []),
      openapi = (\<lambda>_. \<lparr>title = ''Yelix Hono API'',
                       description = ''Yelix Hono API Documentation'',
                       version = ''1.0.0''\<rparr>)\<rparr>"

section \<open>Properties of paths and states\<close>

fun colonParam :: "string \<Rightarrow> bool" where
  \<comment> \<open>A path segment in colon syntax: a colon followed by a name.\<close>
  "colonParam (c # n # rest) = (c = CHR '':'')"
| "colonParam _ = False"

definition noColonParam :: "string \<Rightarrow> bool" where
  "noColonParam p = list_all (\<lambda>seg. \<not> colonParam seg) (split CHR ''/'' p)"

definition bracePaths :: "world \<Rightarrow> bool" where
  \<comment> \<open>No descriptor in any instance's collection has a segment in colon syntax.\<close>
  "bracePaths w = (\<forall>a. list_all (\<lambda>r. noColonParam (e_path (heap w r))) (endpoints w a))"

definition goodSegment :: "string \<Rightarrow> bool" where
  \<comment> \<open>What \<open>mergePaths\<close> joins: no empty segment, no slash, no white space at either end.\<close>
  "goodSegment s = (s \<noteq> [] \<and> CHR ''/'' \<notin> set s \<and> trim s = s)"

fun complete :: "znode \<Rightarrow> bool" where
  \<comment> \<open>Every schema the translator reads without a guard is there, and no length
      constraint it reads is \<open>null\<close>.\<close>
  "complete Absent = False"
| "complete (ZArray element exactLength minLength maxLength) =
     ((element = Absent \<or> complete element)
      \<and> exactLength \<noteq> IsNull
      \<and> (exactLength = Missing \<longrightarrow> minLength \<noteq> IsNull \<and> maxLength \<noteq> IsNull))"
| "complete (ZObject shape) = list_all (\<lambda>kv. complete (snd kv)) shape"
| "complete (ZOptional innerType) = complete innerType"
| "complete (ZNullable innerType) = complete innerType"
| "complete (ZDefault innerType defaultValue) = complete innerType"
| "complete (ZUnion options) = list_all complete options"
| "complete (ZIntersection left right) = (complete left \<and> complete right)"
| "complete (ZRecord valueType) = (valueType = Absent \<or> complete valueType)"
| "complete (ZTuple items rest) = (list_all complete items \<and> (rest = Absent \<or> complete rest))"
| "complete (ZPipe out) = complete out"
| "complete (ZTransform inputSchema) = complete inputSchema"
| "complete (ZSet valueType) = complete valueType"
| "complete (ZMap valueType) = complete valueType"
| "complete _ = True"

section \<open>Example values\<close>

definition emptyCheck :: check where
  \<comment> \<open>The check \<open>{}\<close>.\<close>
  "emptyCheck =
     \<lparr>c_def = None, c_format = None, c_minLength = None, c_maxLength = None, c_isInt = False,
      c_minValue = None, c_maxValue = None, c_kind = None, c_value = None, c_inclusive = None,
      c_regex = None\<rparr>"

definition emptyDocs :: endpoint_docs where
  \<comment> \<open>The documentation descriptor \<open>{}\<close>.\<close>
  "emptyDocs =
     \<lparr>d_hide = None, d_method = None, d_path = None, d_summary = None, d_description = None,
      d_tags = None, d_responses = None\<rparr>"

definition openapiMiddleware :: "endpoint_docs \<Rightarrow> handler" where
  \<comment> \<open>\<open>openapi(endpointDocs)\<close>:
      \<^verbatim>\<open>namedMiddleware('openapi', ..., { _yelixKeys: ['openapi'], endpointDocs })\<close>\<close>
  "openapiMiddleware docs =
     Mw \<lparr>m_name = ''openapi'', m_yelixKeys = Some [''openapi''], m_endpointDocs = Some docs,
         m_from = None, m_schema = NoSchema\<rparr>"

definition queryValidator :: handler where
  \<comment> \<open>A request validation of the query with one parameter.\<close>
  "queryValidator =
     Mw \<lparr>m_name = ''zValidator'', m_yelixKeys = Some [''requestValidation''],
         m_endpointDocs = None, m_from = Some ''query'',
         m_schema = ParameterArray
           [JObj [(''name'', JStr ''q''), (''in'', JStr ''query''), (''required'', JBool True),
                  (''schema'', JObj [(''type'', JStr ''string'')])]]\<rparr>"

definition hiddenHandlers :: "handler list" where
  \<comment> \<open>The handlers of a hidden route that also validates its query.\<close>
  "hiddenHandlers = [openapiMiddleware (emptyDocs\<lparr>d_hide := Some True\<rparr>), queryValidator, Fn]"


definition childWorld :: world where
  \<comment> \<open>Instance 1 after \<open>get("/ping", handler)\<close>.\<close>
  "childWorld = verb ''get'' initial 1 ''/ping'' [Fn]"

definition mountedWorld :: world where
  \<comment> \<open>Then instance 0 mounts instance 1 under \<open>/svc\<close>.\<close>
  "mountedWorld = route childWorld 0 ''/svc'' (Yelix 1)"

definition searchShape :: "(string \<times> znode) list" where
  \<comment> \<open>\<open>{ q: z.string(), page: z.number().optional(), limit: z.number().default(10) }\<close>\<close>
  "searchShape =
     [(''q'', ZString None None None None),
      (''page'', ZOptional (ZNumber None)),
      (''limit'', ZDefault (ZNumber None) (Literal (JNum 10)))]"



definition sentinelCheck :: check where
  \<comment> \<open>A check carrying the safe-integer minimum as \<open>minValue\<close> and 100 as \<open>maxValue\<close>.\<close>
  "sentinelCheck = emptyCheck\<lparr>c_minValue := Some (- 9007199254740991), c_maxValue := Some 100\<rparr>"

section \<open>The earlier snapshot of the path merge\<close>

text \<open>
  The sources hold two snapshots of the application class. The definitions above follow
  the later one (it documents itself and imports \<open>@yelix/openapi\<close>). The earlier snapshot
  differs in \<open>mergePaths\<close>:
  \<^verbatim>\<open>
  private mergePaths(...parts: string[]): string {
    const merged = parts
      .map(p => p.trim())                 // remove extra spaces
      .filter(p => p.length > 0)          // remove empty strings
      .map((p, i) =>
        i === 0 ? p.replace(/\/+$/, '')   // first part: remove trailing slashes
               : p.replace(/^\/+/, '')    // other parts: remove leading slashes
      )
      .join('/');
    return '/' + merged; // always prefix with a single leading slash
  }
  \<close>
  and in the summary of a route without one, which it leaves empty.
\<close>

definition mergePaths_earlier :: "string list \<Rightarrow> string" where
  "mergePaths_earlier parts =
     CHR ''/'' # join ''/''
       (case filter (\<lambda>p. p \<noteq> []) (map trim parts) of
          [] \<Rightarrow> []
        | p # ps \<Rightarrow>
            rev (dropWhile (\<lambda>c. c = CHR ''/'') (rev p))
              # map (dropWhile (\<lambda>c. c = CHR ''/'')) ps)"

section \<open>Splitting, joining and trimming\<close>

lemma split_not_Nil [simp]: "split sep s \<noteq> []"
  by (induction s) auto

lemma split_append_no_sep:
  "sep \<notin> set u \<Longrightarrow> split sep (u @ v) = (u @ hd (split sep v)) # tl (split sep v)"
  by (induction u) auto

lemma split_self: "sep \<notin> set u \<Longrightarrow> split sep u = [u]"
  using split_append_no_sep [of sep u "[]"] by simp

lemma split_no_sep: "seg \<in> set (split sep s) \<Longrightarrow> sep \<notin> set seg"
proof (induction s arbitrary: seg)
  case Nil
  then show ?case by simp
next
  case (Cons c cs)
  show ?case
  proof (cases "c = sep")
    case True
    with Cons show ?thesis by auto
  next
    case False
    from Cons.prems False have "seg = c # hd (split sep cs) \<or> seg \<in> set (tl (split sep cs))"
      by simp
    moreover have "hd (split sep cs) \<in> set (split sep cs)" by simp
    moreover have "set (tl (split sep cs)) \<subseteq> set (split sep cs)"
      by (simp add: list.set_sel(2) subsetI)
    ultimately show ?thesis using Cons.IH False by auto
  qed
qed

lemma split_join:
  "\<forall>s \<in> set ss. CHR ''/'' \<notin> set s \<Longrightarrow> ss \<noteq> [] \<Longrightarrow> split CHR ''/'' (join ''/'' ss) = ss"
proof (induction ss rule: induct_list012)
  case 1
  then show ?case by simp
next
  case (2 s)
  then show ?case by (simp add: split_self)
next
  case (3 s t ss)
  then have "split CHR ''/'' (join ''/'' (t # ss)) = t # ss" by simp
  moreover have "CHR ''/'' \<notin> set s" using 3 by simp
  ultimately show ?case
    by (simp add: split_append_no_sep)
qed

lemma set_trim: "set (trim s) \<subseteq> set s"
  by (auto simp: trim_def dest!: set_dropWhileD)

lemma trim_ends:
  assumes "t \<noteq> []" and "\<not> P (hd t)"
  defines "u \<equiv> rev (dropWhile P (rev t))"
  shows "u \<noteq> [] \<and> \<not> P (hd u) \<and> \<not> P (last u)"
proof -
  have in_rev: "hd t \<in> set (rev t)" using assms(1) by simp
  then have ne: "dropWhile P (rev t) \<noteq> []"
    using assms(2) by (auto simp: dropWhile_eq_Nil_conv)
  have "last (dropWhile P (rev t)) = last (rev t)"
    using in_rev assms(2) by (rule dropWhile_last)
  then have "hd u = hd t"
    using ne assms(1) by (simp add: u_def hd_rev last_rev)
  moreover have "\<not> P (hd (dropWhile P (rev t)))"
    using ne by (rule hd_dropWhile)
  then have "\<not> P (last u)"
    using ne by (simp add: u_def last_rev)
  ultimately show ?thesis using ne assms(2) by (simp add: u_def)
qed

lemma trim_fixed:
  assumes "u \<noteq> []" and "\<not> isWhiteSpace (hd u)" and "\<not> isWhiteSpace (last u)"
  shows "trim u = u"
proof -
  have "dropWhile isWhiteSpace u = u"
    using assms(2) by (simp add: dropWhile_eq_self_iff)
  moreover have "dropWhile isWhiteSpace (rev u) = rev u"
    using assms(1,3) by (simp add: dropWhile_eq_self_iff hd_rev)
  ultimately show ?thesis by (simp add: trim_def)
qed

lemma trim_trim: "trim (trim s) = trim s"
proof (cases "dropWhile isWhiteSpace s = []")
  case True
  have "trim s = []" unfolding trim_def True by simp
  moreover have "trim [] = []" by (simp add: trim_def)
  ultimately show ?thesis by simp
next
  case False
  then have "\<not> isWhiteSpace (hd (dropWhile isWhiteSpace s))" by (rule hd_dropWhile)
  from trim_ends [of "dropWhile isWhiteSpace s" isWhiteSpace, OF False this]
  have "trim (trim s) = trim s"
    unfolding trim_def [of s] by (intro trim_fixed) simp_all
  then show ?thesis .
qed

section \<open>The segments of a merged path\<close>

lemma segments_good: "s \<in> set (segments parts) \<Longrightarrow> goodSegment s"
  using set_trim split_no_sep
  by (fastforce simp: segments_def goodSegment_def trim_trim)

lemma segments_append: "segments (xs @ ys) = segments xs @ segments ys"
  by (simp add: segments_def)

lemma segments_Cons: "segments (x # xs) = segments [x] @ segments xs"
  using segments_append [of "[x]" xs] by simp

lemma segments_empty: "segments [[]] = []"
  by (simp add: segments_def)

lemma segments_slash_join:
  assumes "\<forall>s \<in> set ss. goodSegment s"
  shows "segments [CHR ''/'' # join ''/'' ss] = ss"
proof (cases "ss = []")
  case True
  then show ?thesis by (simp add: segments_def)
next
  case False
  have "\<forall>s \<in> set ss. CHR ''/'' \<notin> set s" using assms by (simp add: goodSegment_def)
  then have "split CHR ''/'' (join ''/'' ss) = ss" using False by (rule split_join)
  then have "segments [CHR ''/'' # join ''/'' ss]
               = map trim (filter (\<lambda>p. p \<noteq> [] \<and> trim p \<noteq> []) ss)"
    by (simp add: segments_def)
  also have "filter (\<lambda>p. p \<noteq> [] \<and> trim p \<noteq> []) ss = ss"
    using assms by (auto simp: goodSegment_def intro!: filter_True)
  also have "map trim ss = ss"
    using assms by (auto simp: goodSegment_def intro!: map_idI)
  finally show ?thesis .
qed

lemma segments_mergePaths: "segments [mergePaths parts] = segments parts"
  unfolding mergePaths_def using segments_good by (intro segments_slash_join) blast

lemma mergePaths_spec_eq:
  assumes "\<forall>s \<in> set (split CHR ''/'' a @ split CHR ''/'' b). trim s = s"
  shows "mergePaths [a, b] = mergeMountPath_spec a b"
proof -
  let ?xs = "split CHR ''/'' a @ split CHR ''/'' b"
  have "filter (\<lambda>p. p \<noteq> [] \<and> trim p \<noteq> []) ?xs = filter (\<lambda>s. s \<noteq> []) ?xs"
    using assms by (intro filter_cong) auto
  moreover have "map trim (filter (\<lambda>s. s \<noteq> []) ?xs) = filter (\<lambda>s. s \<noteq> []) ?xs"
    using assms by (intro map_idI) auto
  ultimately show ?thesis
    by (simp add: mergePaths_def segments_def mergeMountPath_spec_def)
qed

lemma mergePaths_earlier_example: "mergePaths_earlier [''/api/'', ''/tasks''] = ''//api/tasks''"
  by (simp add: mergePaths_earlier_def trim_def isWhiteSpace_def)

section \<open>The conversion leaves no colon segment\<close>

lemma list_all_tl: "list_all P xs \<Longrightarrow> list_all P (tl xs)"
  by (cases xs) auto

lemma hd_split_convert_boundary:
  "takeWhile (\<lambda>x. x \<noteq> CHR ''/'') cs = []
   \<Longrightarrow> hd (split CHR ''/'' (convertColonRoutesToBraces cs)) = []"
  by (cases cs) (auto split: if_splits)

lemma noColonParam_convert: "noColonParam (convertColonRoutesToBraces p)"
proof (induction p rule: convertColonRoutesToBraces.induct)
  case 1
  then show ?case by (simp add: noColonParam_def)
next
  case (2 c cs)
  let ?name = "takeWhile (\<lambda>x. x \<noteq> CHR ''/'') cs"
  let ?rest = "dropWhile (\<lambda>x. x \<noteq> CHR ''/'') cs"
  show ?case
  proof (cases "c = CHR '':'' \<and> ?name \<noteq> []")
    case True
    then have ih: "list_all (\<lambda>seg. \<not> colonParam seg)
                     (split CHR ''/'' (convertColonRoutesToBraces ?rest))"
      using 2 by (simp add: noColonParam_def)
    have "CHR ''/'' \<notin> set (''{'' @ ?name @ ''}'')"
      by (auto dest: set_takeWhileD)
    from split_append_no_sep [OF this, of "convertColonRoutesToBraces ?rest"]
    have "split CHR ''/'' (convertColonRoutesToBraces (c # cs)) =
            (''{'' @ ?name @ ''}'' @ hd (split CHR ''/'' (convertColonRoutesToBraces ?rest)))
              # tl (split CHR ''/'' (convertColonRoutesToBraces ?rest))"
      using True by simp
    then show ?thesis
      using ih True by (cases ?name) (auto simp: noColonParam_def list_all_tl)
  next
    case False
    then have conv: "convertColonRoutesToBraces (c # cs) = c # convertColonRoutesToBraces cs"
      by auto
    have ih: "list_all (\<lambda>seg. \<not> colonParam seg)
                (split CHR ''/'' (convertColonRoutesToBraces cs))"
      using 2 False by (auto simp: noColonParam_def)
    have sp: "split CHR ''/'' (convertColonRoutesToBraces (c # cs)) =
                (if c = CHR ''/'' then [] # split CHR ''/'' (convertColonRoutesToBraces cs)
                 else (c # hd (split CHR ''/'' (convertColonRoutesToBraces cs)))
                        # tl (split CHR ''/'' (convertColonRoutesToBraces cs)))"
      unfolding conv by simp
    show ?thesis
    proof (cases "c = CHR '':''")
      case True
      with False have "?name = []" by simp
      then have "hd (split CHR ''/'' (convertColonRoutesToBraces cs)) = []"
        by (rule hd_split_convert_boundary)
      then show ?thesis
        unfolding noColonParam_def sp using ih True by (simp add: list_all_tl)
    next
      case False
      then show ?thesis
        unfolding noColonParam_def sp using ih
        by (cases "hd (split CHR ''/'' (convertColonRoutesToBraces cs))")
          (auto simp: list_all_tl)
    qed
  qed
qed

section \<open>Objects as property lists\<close>

lemma map_of_setProp: "map_of (setProp k v kvs) = (map_of kvs)(k \<mapsto> v)"
  by (induction kvs) auto

lemma keys_setProp: "fst ` set (setProp k v kvs) = insert k (fst ` set kvs)"
  by (induction kvs) force+

lemma keys_assignProp:
  "fst ` set (assignProp k v kvs) = fst ` set kvs \<union> ({k} - {''__proto__''})"
  by (simp add: assignProp_def keys_setProp)

lemma keys_foldl_assignProp:
  "fst ` set (foldl (\<lambda>acc kv. assignProp (fst kv) (g kv) acc) acc0 props)
     = fst ` set acc0 \<union> (fst ` set props - {''__proto__''})"
proof (induction props arbitrary: acc0)
  case Nil
  then show ?case by simp
next
  case (Cons kv props)
  show ?case
    unfolding foldl_Cons Cons.IH keys_assignProp by auto
qed

section \<open>When the translator returns\<close>

lemma sequence_Inr: "sequence rs = Inr ys \<Longrightarrow> rs = map Inr ys"
  by (induction rs arbitrary: ys) (auto split: sum.splits)

lemma sequence_returns:
  "(\<exists>ys. sequence rs = Inr ys) \<longleftrightarrow> list_all (\<lambda>r. \<exists>y. r = Inr y) rs"
  by (induction rs) (auto split: sum.splits)

lemma arrayLengths_returns:
  "(\<exists>s. arrayLengths ex mn mx b = Inr s)
     \<longleftrightarrow> ex \<noteq> IsNull \<and> (ex = Missing \<longrightarrow> mn \<noteq> IsNull \<and> mx \<noteq> IsNull)"
  by (cases ex; cases mn; cases mx) (simp_all add: arrayLengths_def)

text \<open>
  The translator returns a schema exactly on the complete nodes; on every other node it
  throws.
\<close>

lemma translate_returns_iff_complete:
  "(\<exists>s. zodSchemaToOpenAPISchema n = Inr s) \<longleftrightarrow> complete n"
proof (induction n rule: zodSchemaToOpenAPISchema.induct)
  case (9 element exactLength minLength maxLength)
  then show ?case
    by (cases "element = Absent")
      (auto simp: arrayLengths_returns fallback_def split: sum.splits)
next
  case (10 shape)
  let ?f = "\<lambda>kv. case zodSchemaToOpenAPISchema (snd kv) of
                    Inl e \<Rightarrow> Inl e
                  | Inr propSchema \<Rightarrow> Inr (fst kv, propSchema)"
  have "(\<exists>s. zodSchemaToOpenAPISchema (ZObject shape) = Inr s)
          \<longleftrightarrow> (\<exists>ys. sequence (map ?f shape) = Inr ys)"
    by (auto split: sum.splits)
  also have "\<dots> \<longleftrightarrow> list_all (\<lambda>kv. \<exists>s. zodSchemaToOpenAPISchema (snd kv) = Inr s) shape"
  proof -
    have h: "(\<exists>y. ?f kv = Inr y) \<longleftrightarrow> (\<exists>s. zodSchemaToOpenAPISchema (snd kv) = Inr s)" for kv
      by (cases "zodSchemaToOpenAPISchema (snd kv)") simp_all
    show ?thesis
      by (simp only: sequence_returns list_all_iff set_map ball_simps h)
  qed
  also have "\<dots> \<longleftrightarrow> list_all (\<lambda>kv. complete (snd kv)) shape"
    using 10 by (auto simp: list_all_iff)
  finally show ?case by simp
next
  case (14 options)
  have "(\<exists>s. zodSchemaToOpenAPISchema (ZUnion options) = Inr s)
          \<longleftrightarrow> (\<exists>ys. sequence (map zodSchemaToOpenAPISchema options) = Inr ys)"
    by (auto split: sum.splits)
  also have "\<dots> \<longleftrightarrow> list_all complete options"
    unfolding sequence_returns using 14 by (auto simp: list_all_iff)
  finally show ?case by simp
next
  case (17 items rest)
  have items: "(\<exists>ys. sequence (map zodSchemaToOpenAPISchema items) = Inr ys)
          \<longleftrightarrow> list_all complete items"
    unfolding sequence_returns using 17(1) by (auto simp: list_all_iff)
  show ?case
  proof (cases "sequence (map zodSchemaToOpenAPISchema items)")
    case (Inl e)
    then show ?thesis using items by auto
  next
    case (Inr ys)
    then show ?thesis
      using items 17(2) [OF Inr] by (auto split: sum.splits)
  qed
qed (auto simp: Let_def split: sum.splits)

section \<open>The object branch\<close>

lemma fields_keys:
  assumes "map (\<lambda>kv. case zodSchemaToOpenAPISchema (snd kv) of
                        Inl e \<Rightarrow> Inl e
                      | Inr propSchema \<Rightarrow> Inr (fst kv, propSchema)) shape = map Inr props"
  shows "map fst props = map fst shape"
  using assms
proof (induction shape arbitrary: props)
  case Nil
  then show ?case by simp
next
  case (Cons kv shape)
  then show ?case by (cases props) (auto split: sum.splits)
qed

lemma objectSchema_required:
  "map_of (objectSchema req props) ''required''
     = (if req = [] then None else Some (JArr (map JStr req)))"
  by (simp add: objectSchema_def Let_def map_of_setProp)

lemma objectSchema_properties:
  "map_of (objectSchema req props) ''properties''
     = Some (JObj (foldl (\<lambda>acc kv. assignProp (fst kv) (JObj (snd kv)) acc) [] props))"
  by (simp add: objectSchema_def Let_def map_of_setProp)

lemma isOptionalOrDefault_iff:
  "isOptionalOrDefault n \<longleftrightarrow> (\<exists>i. n = ZOptional i) \<or> (\<exists>i d. n = ZDefault i d)"
  by (cases n) (simp_all add: isOptionalOrDefault_def)

lemma set_requiredKeys:
  "set (requiredKeys shape)
     = {k. \<exists>n. (k, n) \<in> set shape \<and> (\<forall>i. n \<noteq> ZOptional i) \<and> (\<forall>i d. n \<noteq> ZDefault i d)}"
  by (force simp: requiredKeys_def isOptionalOrDefault_iff)

lemma default_not_required:
  assumes "distinct (map fst shape)" and "(k, ZDefault i d) \<in> set shape"
  shows "k \<notin> set (requiredKeys shape)"
proof
  assume "k \<in> set (requiredKeys shape)"
  then obtain n where n: "(k, n) \<in> set shape" "\<not> isOptionalOrDefault n"
    by (auto simp: requiredKeys_def)
  from assms n(1) have "n = ZDefault i d"
    by (meson eq_key_imp_eq_value)
  with n(2) show False by (simp add: isOptionalOrDefault_def)
qed

section \<open>The number branch\<close>

lemma runChecks_snoc:
  "runChecks step (Some (cs @ [c])) base = step (runChecks step (Some cs) base) c"
  by (simp add: runChecks_def)

lemma translate_ZNumber_snoc:
  assumes "zodSchemaToOpenAPISchema (ZNumber (Some cs)) = Inr base"
  shows "zodSchemaToOpenAPISchema (ZNumber (Some (cs @ [c]))) = Inr (numberCheck base c)"
  using assms by (simp add: runChecks_snoc)

lemma setInteger_bounds:
  "k \<noteq> ''type'' \<Longrightarrow> k \<noteq> ''example'' \<Longrightarrow> map_of (setInteger b) k = map_of b k"
  by (simp add: setInteger_def map_of_setProp)

lemma numberCheck_kind_min:
  assumes "c_kind ch = Some ''min''" and "c_value ch = Some v"
  shows "map_of (numberCheck base (Check ch)) ''minimum'' = Some (JNum v)"
    and "map_of (numberCheck base (Check ch)) ''exclusiveMinimum''
           = (if c_inclusive ch = Some True then map_of base ''exclusiveMinimum''
              else Some (JBool True))"
  using assms
  by (simp_all add: numberCheck_def numberKind_def setBound_def Let_def map_of_setProp
      setInteger_bounds split: option.splits)

lemma numberCheck_kind_max:
  assumes "c_kind ch = Some ''max''" and "c_value ch = Some v"
  shows "map_of (numberCheck base (Check ch)) ''maximum'' = Some (JNum v)"
    and "map_of (numberCheck base (Check ch)) ''exclusiveMaximum''
           = (if c_inclusive ch = Some True then map_of base ''exclusiveMaximum''
              else Some (JBool True))"
  using assms
  by (simp_all add: numberCheck_def numberKind_def setBound_def Let_def map_of_setProp
      setInteger_bounds split: option.splits)

lemma numberKind_other:
  assumes "c_kind ch \<noteq> Some bound" and "bound = ''min'' \<or> bound = ''max''"
    and "k = (if bound = ''min'' then ''minimum'' else ''maximum'')
         \<or> k = (if bound = ''min'' then ''exclusiveMinimum'' else ''exclusiveMaximum'')"
  shows "map_of (numberKind ch b) k = map_of b k"
  using assms
  by (auto simp: numberKind_def setBound_def setNum_def Let_def map_of_setProp
      setInteger_bounds split: option.splits)

lemma numberCheck_minValue:
  assumes "c_kind ch \<noteq> Some ''min''" and "c_minValue ch = Some v"
  shows "map_of (numberCheck base (Check ch)) ''minimum''
           = (if v > - 9007199254740991 then Some (JNum v) else map_of base ''minimum'')"
    and "map_of (numberCheck base (Check ch)) ''exclusiveMinimum'' = map_of base ''exclusiveMinimum''"
  using assms
  by (simp_all add: numberCheck_def Let_def numberKind_other [where bound = "''min''"]
      map_of_setProp setInteger_bounds split: option.splits)

lemma numberCheck_maxValue:
  assumes "c_kind ch \<noteq> Some ''max''" and "c_maxValue ch = Some v"
  shows "map_of (numberCheck base (Check ch)) ''maximum''
           = (if v < 9007199254740991 then Some (JNum v) else map_of base ''maximum'')"
    and "map_of (numberCheck base (Check ch)) ''exclusiveMaximum'' = map_of base ''exclusiveMaximum''"
  using assms
  by (simp_all add: numberCheck_def Let_def numberKind_other [where bound = "''max''"]
      map_of_setProp setInteger_bounds split: option.splits)

section \<open>Registration and mounting\<close>

lemma foldl_rewrite:
  "foldl (\<lambda>h r. h(r := f (h r))) h eps r = (f ^^ count_list eps r) (h r)"
proof (induction eps arbitrary: h)
  case Nil
  then show ?case by simp
next
  case (Cons x eps)
  then show ?case by (simp add: funpow_swap1)
qed

lemma e_path_buildEndpoint:
  "e_path (buildEndpoint p m hs) =
     convertColonRoutesToBraces (orElse (Option.bind (docsOf hs) d_path) p)"
  by (simp add: buildEndpoint_def Let_def split_def)


lemma buildEndpoint_plain:
  assumes "m \<noteq> []" and "p \<noteq> []"
  shows "buildEndpoint p m [Fn] =
     \<lparr>e_method = m, e_path = convertColonRoutesToBraces p, e_summary = toUpperCase m @ '' '' @ p,
      e_description = [], e_tags = [], e_responses = None, e_requestBody = None,
      e_parameters = []\<rparr>"
  using assms
  by (simp add: buildEndpoint_def Let_def docsOf_def getMiddlewareByKey_def
      getMiddlewaresByKey_def orElse_def)

lemma heap_callHono [simp]: "heap (callHono w a c) = heap w"
  by (simp add: callHono_def)

lemma endpoints_callHono [simp]: "endpoints (callHono w a c) = endpoints w"
  by (simp add: callHono_def)

lemma next_ref_callHono [simp]: "next_ref (callHono w a c) = next_ref w"
  by (simp add: callHono_def)

lemma openapi_callHono [simp]: "openapi (callHono w a c) = openapi w"
  by (simp add: callHono_def)

lemma hono_callHono [simp]: "hono (callHono w a c) = (hono w)(a := hono w a @ [c])"
  by (simp add: callHono_def)

lemma getOpenAPI_callHono: "fst (getOpenAPI (callHono w a c) b) = fst (getOpenAPI w b)"
  by (simp add: getOpenAPI_def)

lemma heap_route:
  "heap (route w a p (Yelix b)) r = (rewritePath p ^^ count_list (endpoints w b) r) (heap w r)"
  by (simp add: route_def Let_def foldl_rewrite)

lemma endpoints_route:
  "endpoints (route w a p (Yelix b)) = (endpoints w)(a := endpoints w a @ endpoints w b)"
  by (simp add: route_def Let_def)

lemma route_PlainHono: "route w a p PlainHono = callHono w a (HonoRoute p None)"
  by (simp add: route_def)

lemma hidden_load: "hidden (docsOf hs) \<Longrightarrow> loadEndpointDocs w a p m hs = w"
  by (simp add: loadEndpointDocs_def)

lemma hidden_foldl_load:
  "hidden (docsOf hs) \<Longrightarrow> foldl (\<lambda>w' m. loadEndpointDocs w' a p m hs) w ms = w"
  by (induction ms) (simp_all add: hidden_load)

subsection \<open>The example states\<close>

lemma childWorld_heap:
  "heap childWorld 0 =
     \<lparr>e_method = ''get'', e_path = ''/ping'', e_summary = ''GET /ping'',
      e_description = [], e_tags = [], e_responses = None, e_requestBody = None,
      e_parameters = []\<rparr>"
  by (simp add: childWorld_def verb_def loadEndpointDocs_def push_def initial_def hidden_def
      docsOf_def getMiddlewareByKey_def buildEndpoint_plain toUpperCase_def lowerUnits_def
      upperUnits_def)

lemma childWorld_endpoints: "endpoints childWorld = (\<lambda>_. [])(1 := [0])"
  by (simp add: childWorld_def verb_def loadEndpointDocs_def push_def initial_def hidden_def
      docsOf_def getMiddlewareByKey_def)

lemma mountedWorld_heap:
  "heap mountedWorld 0 =
     \<lparr>e_method = ''get'', e_path = ''/svc/ping'', e_summary = ''GET /ping'',
      e_description = [], e_tags = [], e_responses = None, e_requestBody = None,
      e_parameters = []\<rparr>"
  by (simp add: mountedWorld_def heap_route childWorld_endpoints childWorld_heap rewritePath_def
      mergePaths_def segments_def trim_def isWhiteSpace_def)

lemma hiddenHandlers_hidden: "hidden (docsOf hiddenHandlers)"
  by (simp add: hiddenHandlers_def hidden_def docsOf_def getMiddlewareByKey_def
      openapiMiddleware_def queryValidator_def hasKey_def emptyDocs_def)

subsection \<open>Brace syntax is kept\<close>

lemma bracePaths_initial: "bracePaths initial"
  by (simp add: bracePaths_def initial_def)

lemma bracePaths_callHono: "bracePaths (callHono w a c) = bracePaths w"
  by (simp add: bracePaths_def)

lemma bracePaths_push:
  assumes "bracePaths w" and "noColonParam (e_path e)"
  shows "bracePaths (push w a e)"
  using assms by (auto simp: bracePaths_def push_def list_all_iff)

lemma bracePaths_loadEndpointDocs:
  "bracePaths w \<Longrightarrow> bracePaths (loadEndpointDocs w a p m hs)"
  by (simp add: loadEndpointDocs_def bracePaths_push e_path_buildEndpoint noColonParam_convert)

lemma bracePaths_foldl_load:
  "bracePaths w \<Longrightarrow> bracePaths (foldl (\<lambda>w' m. loadEndpointDocs w' a p m hs) w ms)"
  by (induction ms arbitrary: w) (simp_all add: bracePaths_loadEndpointDocs)

lemma noColonParam_rewritten:
  "0 < n \<Longrightarrow> noColonParam (e_path ((rewritePath p ^^ n) e))"
  by (cases n) (simp_all add: rewritePath_def noColonParam_convert)

lemma bracePaths_route:
  assumes "bracePaths w"
  shows "bracePaths (route w a p inst)"
proof (cases inst)
  case PlainHono
  then show ?thesis using assms by (simp add: route_PlainHono bracePaths_callHono)
next
  case (Yelix b)
  have ok: "noColonParam (e_path (heap (route w a p (Yelix b)) r))"
    if "r \<in> set (endpoints w c)" for r c
  proof (cases "count_list (endpoints w b) r = 0")
    case True
    then show ?thesis
      using assms that by (simp add: heap_route bracePaths_def list_all_iff)
  next
    case False
    then show ?thesis by (simp add: heap_route noColonParam_rewritten)
  qed
  show ?thesis
    unfolding Yelix bracePaths_def list_all_iff endpoints_route
    using ok by auto
qed

section \<open>Claims about the path merge\<close>

text \<open>
  C2, as amended. The three merges of the specification evaluate to \<open>/api/tasks\<close>. For any
  two fragments the merge splits both on the slash, discards the segments that are
  empty or consist of white space, trims the others, rejoins them with single slashes
  and puts one slash in front. Where no segment begins or ends with white space this is
  the merge the specification words: split, discard the empty segments, rejoin.
\<close>

theorem mergePaths_examples_and_shape:
  "mergePaths [''/api/'', ''/tasks''] = ''/api/tasks''
   \<and> mergePaths [''api'', ''tasks''] = ''/api/tasks''
   \<and> mergePaths [''/api'', ''/tasks/''] = ''/api/tasks''
   \<and> mergePaths [a, b] =
       CHR ''/'' # join ''/''
         (map trim (filter (\<lambda>s. trim s \<noteq> []) (split CHR ''/'' a @ split CHR ''/'' b)))
   \<and> ((\<forall>s \<in> set (split CHR ''/'' a @ split CHR ''/'' b). trim s = s)
        \<longrightarrow> mergePaths [a, b] = mergeMountPath_spec a b)"
proof -
  have e1: "mergePaths [''/api/'', ''/tasks''] = ''/api/tasks''"
    by (simp add: mergePaths_def segments_def trim_def isWhiteSpace_def)
  have e2: "mergePaths [''api'', ''tasks''] = ''/api/tasks''"
    by (simp add: mergePaths_def segments_def trim_def isWhiteSpace_def)
  have e3: "mergePaths [''/api'', ''/tasks/''] = ''/api/tasks''"
    by (simp add: mergePaths_def segments_def trim_def isWhiteSpace_def)
  have "trim [] = []" by (simp add: trim_def)
  then have "(\<lambda>p. p \<noteq> [] \<and> trim p \<noteq> []) = (\<lambda>s. trim s \<noteq> [])"
    by auto
  then have shape: "mergePaths [a, b] =
       CHR ''/'' # join ''/''
         (map trim (filter (\<lambda>s. trim s \<noteq> []) (split CHR ''/'' a @ split CHR ''/'' b)))"
    by (simp add: mergePaths_def segments_def)
  show ?thesis
    using e1 e2 e3 shape mergePaths_spec_eq [of a b] by blast
qed

theorem mergePaths_examples_and_shape_witness:
  "list_all (\<lambda>s. trim s = s) (split CHR ''/'' ''/api//v1/'' @ split CHR ''/'' ''tasks/:id'')
   \<and> mergePaths [''/api//v1/'', ''tasks/:id''] = mergeMountPath_spec ''/api//v1/'' ''tasks/:id''
   \<and> mergePaths [''/api//v1/'', ''tasks/:id''] = ''/api/v1/tasks/:id''"
proof -
  have h: "\<forall>s \<in> set (split CHR ''/'' ''/api//v1/'' @ split CHR ''/'' ''tasks/:id''). trim s = s"
    by (simp add: trim_def isWhiteSpace_def)
  have v: "mergePaths [''/api//v1/'', ''tasks/:id''] = ''/api/v1/tasks/:id''"
    by (simp add: mergePaths_def segments_def trim_def isWhiteSpace_def)
  have "mergePaths [''/api//v1/'', ''tasks/:id''] = mergeMountPath_spec ''/api//v1/'' ''tasks/:id''"
    using h mergePaths_examples_and_shape [of "''/api//v1/''" "''tasks/:id''"] by blast
  then show ?thesis
    using h v by (simp add: list_all_iff)
qed

text \<open>
  C2 as stated fails where a segment carries white space at an end: the code trims the
  segment, the merge of the specification keeps it.
\<close>

theorem mergePaths_whitespace_counterexample:
  "mergePaths ['' a'', ''b''] = ''/a/b''
   \<and> mergeMountPath_spec '' a'' ''b'' = ''/ a/b''
   \<and> mergePaths ['' a'', ''b''] \<noteq> mergeMountPath_spec '' a'' ''b''"
  by (simp add: mergePaths_def segments_def trim_def isWhiteSpace_def mergeMountPath_spec_def)

text \<open>
  C9, as amended. The merge is associative for all fragments, and merging a merged path
  again, alone or with an empty fragment on either side, changes nothing.
\<close>

theorem mergePaths_assoc_and_remerge:
  "mergePaths [mergePaths [a, b], c] = mergePaths [a, mergePaths [b, c]]
   \<and> mergePaths [mergePaths [a, b]] = mergePaths [a, b]
   \<and> mergePaths [mergePaths [a, b], []] = mergePaths [a, b]
   \<and> mergePaths [[], mergePaths [a, b]] = mergePaths [a, b]"
proof -
  have "segments [mergePaths [a, b], c] = segments [a, b] @ segments [c]"
    using segments_Cons [of "mergePaths [a, b]" "[c]"] by (simp add: segments_mergePaths)
  moreover have "segments [a, mergePaths [b, c]] = segments [a] @ segments [b, c]"
    using segments_Cons [of a "[mergePaths [b, c]]"] by (simp add: segments_mergePaths)
  moreover have "segments [a, b] @ segments [c] = segments [a] @ segments [b, c]"
    using segments_append [of "[a, b]" "[c]"] segments_append [of "[a]" "[b, c]"] by simp
  ultimately have assoc: "mergePaths [mergePaths [a, b], c] = mergePaths [a, mergePaths [b, c]]"
    by (simp add: mergePaths_def)
  have "segments [mergePaths [a, b], []] = segments [a, b]"
    using segments_Cons [of "mergePaths [a, b]" "[[]]"]
    by (simp add: segments_mergePaths segments_empty)
  moreover have "segments [[], mergePaths [a, b]] = segments [a, b]"
    using segments_Cons [of "[]" "[mergePaths [a, b]]"]
    by (simp add: segments_mergePaths segments_empty)
  ultimately show ?thesis
    using assoc segments_mergePaths [of "[a, b]"] by (simp add: mergePaths_def)
qed

text \<open>
  C9 as stated fails in its first reading of idempotence: the merged path \<open>/a/b\<close> merged
  with itself is \<open>/a/b/a/b\<close>.
\<close>

theorem mergePaths_self_counterexample:
  "mergePaths [mergePaths [''a'', ''b''], mergePaths [''a'', ''b'']] = ''/a/b/a/b''
   \<and> mergePaths [''a'', ''b''] = ''/a/b''
   \<and> mergePaths [mergePaths [''a'', ''b''], mergePaths [''a'', ''b'']] \<noteq> mergePaths [''a'', ''b'']"
  by (simp add: mergePaths_def segments_def trim_def isWhiteSpace_def)

section \<open>Claims about mounting and the document\<close>

text \<open>
  C1, as amended. \<open>A.route(p, B)\<close> rewrites the descriptors of \<open>B\<close> in place and shares them
  with \<open>A\<close>: afterwards every descriptor object has been rewritten once for each of its
  occurrences in the collection of \<open>B\<close> (its path becomes the converted merge of \<open>p\<close> and
  its path, every other field stays), a descriptor that is not in the collection of \<open>B\<close>
  is unchanged, and the collection of \<open>A\<close> is its old content followed by the same
  objects. The descriptors of \<open>B\<close> therefore show the rewritten paths.
\<close>

theorem route_rewrites_in_place:
  "heap (route w a p (Yelix b)) r = (rewritePath p ^^ count_list (endpoints w b) r) (heap w r)
   \<and> endpoints (route w a p (Yelix b)) = (endpoints w)(a := endpoints w a @ endpoints w b)"
  using heap_route endpoints_route by simp

text \<open>
  C1 as stated fails: after instance 0 mounts instance 1 under \<open>/svc\<close>, the only descriptor
  of instance 1 has the path \<open>/svc/ping\<close> instead of \<open>/ping\<close>, it is the object that instance
  0 holds, and the document of instance 1 has changed.
\<close>

theorem route_shares_counterexample:
  "endpoints childWorld 1 = [0] \<and> e_path (heap childWorld 0) = ''/ping''
   \<and> endpoints mountedWorld 1 = [0] \<and> e_path (heap mountedWorld 0) = ''/svc/ping''
   \<and> endpoints mountedWorld 0 = [0]
   \<and> heap mountedWorld 0 \<noteq> heap childWorld 0
   \<and> fst (getOpenAPI mountedWorld 1) \<noteq> fst (getOpenAPI childWorld 1)"
  by (simp add: childWorld_heap mountedWorld_heap childWorld_endpoints
      endpoints_route [of childWorld 0 "''/svc''" 1, folded mountedWorld_def]
      getOpenAPI_def assemble_def addEndpoint_def)

section \<open>Claims about route registration\<close>

text \<open>
  C4. When the documentation descriptor of a registration has \<open>hide = true\<close>, whatever
  else is attached, no descriptor is added: the descriptors, every instance's collection
  and every instance's document are as before. The route is registered with the router
  all the same, by the call that any other registration makes. This holds for the six
  verbs, for \<open>all\<close> and for \<open>on\<close>.
\<close>

theorem hidden_route_not_documented:
  assumes "hidden (docsOf handlers)"
  shows "heap (verb m w a p handlers) = heap w
   \<and> endpoints (verb m w a p handlers) = endpoints w
   \<and> fst (getOpenAPI (verb m w a p handlers) b) = fst (getOpenAPI w b)
   \<and> hono (verb m w a p handlers) a = hono w a @ [HonoVerb m p (parseMiddlewares handlers True)]
   \<and> heap (all_methods w a p handlers) = heap w
   \<and> endpoints (all_methods w a p handlers) = endpoints w
   \<and> fst (getOpenAPI (all_methods w a p handlers) b) = fst (getOpenAPI w b)
   \<and> hono (all_methods w a p handlers) a = hono w a @ [HonoAll p (parseMiddlewares handlers True)]
   \<and> heap (on_method w a m p handlers) = heap w
   \<and> endpoints (on_method w a m p handlers) = endpoints w
   \<and> fst (getOpenAPI (on_method w a m p handlers) b) = fst (getOpenAPI w b)
   \<and> hono (on_method w a m p handlers) a = hono w a @ [HonoOn m p (parseMiddlewares handlers True)]"
  using assms
  by (simp add: verb_def all_methods_def on_method_def hidden_load hidden_foldl_load
      getOpenAPI_callHono)

theorem hidden_route_not_documented_witness:
  "hidden (docsOf hiddenHandlers)
   \<and> endpoints (verb ''get'' initial 0 ''/openapi.json'' hiddenHandlers) 0 = []
   \<and> doc_paths (fst (getOpenAPI (verb ''get'' initial 0 ''/openapi.json'' hiddenHandlers) 0)) = []
   \<and> hono (verb ''get'' initial 0 ''/openapi.json'' hiddenHandlers) 0
       = [HonoVerb ''get'' ''/openapi.json''
            [Ensured (Some ''openapi''), Ensured (Some ''zValidator''), Ensured (Some ''handler'')]]"
proof -
  have p: "parseMiddlewares hiddenHandlers True
             = [Ensured (Some ''openapi''), Ensured (Some ''zValidator''), Ensured (Some ''handler'')]"
    by (simp add: parseMiddlewares_def hiddenHandlers_def openapiMiddleware_def queryValidator_def)
  have e: "endpoints initial 0 = [] \<and> hono initial 0 = []
           \<and> doc_paths (fst (getOpenAPI initial 0)) = []"
    by (simp add: initial_def getOpenAPI_def assemble_def)
  show ?thesis
    using hidden_route_not_documented
        [OF hiddenHandlers_hidden,
         where m = "''get''" and w = initial and a = 0 and p = "''/openapi.json''" and b = 0]
      hiddenHandlers_hidden p e by simp
qed



text \<open>
  C10. No descriptor in any instance's collection has a path with a segment in colon
  syntax, a colon followed by a name: this holds of the new instances, and every
  registration (a verb, \<open>all\<close>, \<open>on\<close>) and every mount keeps it, since both store only
  paths that went through the conversion.
\<close>

theorem stored_paths_in_brace_syntax:
  "bracePaths initial
   \<and> (bracePaths w \<longrightarrow> bracePaths (verb m w a p hs))
   \<and> (bracePaths w \<longrightarrow> bracePaths (all_methods w a p hs))
   \<and> (bracePaths w \<longrightarrow> bracePaths (on_method w a m p hs))
   \<and> (bracePaths w \<longrightarrow> bracePaths (route w a p inst))"
  by (simp add: bracePaths_initial verb_def all_methods_def on_method_def bracePaths_callHono
      bracePaths_loadEndpointDocs bracePaths_foldl_load bracePaths_route)

theorem stored_paths_in_brace_syntax_witness:
  "bracePaths initial
   \<and> bracePaths (verb ''get'' initial 1 ''/items/:itemId'' [Fn])
   \<and> bracePaths (route (verb ''get'' initial 1 ''/items/:itemId'' [Fn]) 0 ''/shops/:shop'' (Yelix 1))
   \<and> e_path (heap (route (verb ''get'' initial 1 ''/items/:itemId'' [Fn]) 0 ''/shops/:shop'' (Yelix 1)) 0)
       = ''/shops/{shop}/items/{itemId}''"
proof -
  have a: "bracePaths initial"
    using stored_paths_in_brace_syntax by blast
  have b: "bracePaths (verb ''get'' initial 1 ''/items/:itemId'' [Fn])"
    using a stored_paths_in_brace_syntax [of initial "''get''" 1 "''/items/:itemId''" "[Fn]"]
    by blast
  have c: "bracePaths (route (verb ''get'' initial 1 ''/items/:itemId'' [Fn]) 0 ''/shops/:shop'' (Yelix 1))"
    using b stored_paths_in_brace_syntax
      [of "verb ''get'' initial 1 ''/items/:itemId'' [Fn]" _ 0 "''/shops/:shop''" _ "Yelix 1"]
    by blast
  have "endpoints (verb ''get'' initial 1 ''/items/:itemId'' [Fn]) = (\<lambda>_. [])(1 := [0])"
    by (simp add: verb_def loadEndpointDocs_def push_def initial_def hidden_def
      docsOf_def getMiddlewareByKey_def)
  moreover have "e_path (heap (verb ''get'' initial 1 ''/items/:itemId'' [Fn]) 0) = ''/items/{itemId}''"
    by (simp add: verb_def loadEndpointDocs_def push_def initial_def hidden_def
      docsOf_def getMiddlewareByKey_def buildEndpoint_plain)
  ultimately have d: "e_path (heap (route (verb ''get'' initial 1 ''/items/:itemId'' [Fn]) 0 ''/shops/:shop'' (Yelix 1)) 0)
       = ''/shops/{shop}/items/{itemId}''"
    by (simp add: heap_route rewritePath_def mergePaths_def segments_def trim_def isWhiteSpace_def)
  show ?thesis using a b c d by simp
qed

section \<open>Claims about the translator\<close>

text \<open>
  C5, at its failing inputs. The translator throws on a pipe whose output side is a
  transform without the property \<open>schema\<close>, on such a transform itself, and on an
  optional and a map without their inner schema, while a record without its value schema
  is translated with a placeholder. A value without a definition and a definition with
  an unrecognised tag do translate to \<open>{ type: object, example: {} }\<close>.
\<close>

theorem translator_throws:
  "zodSchemaToOpenAPISchema (ZPipe (ZTransform Absent)) = Inl TypeError
   \<and> zodSchemaToOpenAPISchema (ZTransform Absent) = Inl TypeError
   \<and> zodSchemaToOpenAPISchema (ZOptional Absent) = Inl TypeError
   \<and> zodSchemaToOpenAPISchema (ZMap Absent) = Inl TypeError
   \<and> zodSchemaToOpenAPISchema (ZRecord Absent)
       = Inr [(''type'', JStr ''object''),
              (''additionalProperties'', JObj [(''type'', JStr ''string''), (''example'', JStr ''value'')]),
              (''example'', JObj [(''key'', JStr ''value'')])]
   \<and> zodSchemaToOpenAPISchema NoDef = Inr [(''type'', JStr ''object''), (''example'', JObj [])]
   \<and> zodSchemaToOpenAPISchema ZOther = Inr [(''type'', JStr ''object''), (''example'', JObj [])]"
  by (simp add: getProp_def fallback_def)

text \<open>
  What the object branch does for every shape: an object node whose fields all
  translate does translate; \<open>properties\<close> has the keys of the shape other than
  \<open>__proto__\<close>; \<open>required\<close> is absent when no key is required and is otherwise the list
  of the required keys in the order of the shape; the required keys are the keys of the
  fields whose node is neither an optional nor a default. So the required keys are keys
  of \<open>properties\<close> for every shape without the key \<open>__proto__\<close>.
\<close>

lemma object_translates:
  assumes "list_all (\<lambda>kv. \<exists>s. zodSchemaToOpenAPISchema (snd kv) = Inr s) shape"
  shows "\<exists>out. zodSchemaToOpenAPISchema (ZObject shape) = Inr out"
proof -
  let ?f = "\<lambda>kv. case zodSchemaToOpenAPISchema (snd kv) of
                    Inl e \<Rightarrow> Inl e
                  | Inr propSchema \<Rightarrow> Inr (fst kv, propSchema)"
  from assms have "list_all (\<lambda>r. \<exists>y. r = Inr y) (map ?f shape)"
    by (auto simp: list_all_iff)
  then obtain props where "sequence (map ?f shape) = Inr props"
    using sequence_returns by blast
  then show ?thesis by simp
qed

lemma object_required_ordinary_keys:
  assumes t: "zodSchemaToOpenAPISchema (ZObject shape) = Inr out"
  shows "\<exists>properties.
           map_of out ''properties'' = Some (JObj properties)
           \<and> fst ` set properties = fst ` set shape - {''__proto__''}
           \<and> map_of out ''required''
               = (if requiredKeys shape = [] then None
                  else Some (JArr (map JStr (requiredKeys shape))))
           \<and> set (requiredKeys shape)
               = {k. \<exists>n. (k, n) \<in> set shape
                        \<and> (\<forall>i. n \<noteq> ZOptional i) \<and> (\<forall>i d. n \<noteq> ZDefault i d)}
           \<and> (''__proto__'' \<notin> fst ` set shape
                \<longrightarrow> set (requiredKeys shape) \<subseteq> fst ` set properties)"
proof -
  let ?f = "\<lambda>kv. case zodSchemaToOpenAPISchema (snd kv) of
                    Inl e \<Rightarrow> Inl e
                  | Inr propSchema \<Rightarrow> Inr (fst kv, propSchema)"
  from t obtain props where props: "sequence (map ?f shape) = Inr props"
    and out: "out = objectSchema (requiredKeys shape) props"
    by (auto split: sum.splits)
  have keys: "map fst props = map fst shape"
    using sequence_Inr [OF props] by (rule fields_keys)
  let ?properties = "foldl (\<lambda>acc kv. assignProp (fst kv) (JObj (snd kv)) acc) [] props"
  have k: "fst ` set ?properties = fst ` set shape - {''__proto__''}"
  proof -
    have "fst ` set ?properties = set (map fst props) - {''__proto__''}"
      by (simp add: keys_foldl_assignProp)
    also have "\<dots> = set (map fst shape) - {''__proto__''}"
      by (simp only: keys)
    finally show ?thesis by simp
  qed
  have sub: "''__proto__'' \<notin> fst ` set shape
               \<longrightarrow> set (requiredKeys shape) \<subseteq> fst ` set ?properties"
    unfolding k by (auto simp: requiredKeys_def)
  show ?thesis
  proof (intro exI [of _ ?properties] conjI)
    show "map_of out ''properties'' = Some (JObj ?properties)"
      by (simp add: out objectSchema_properties)
    show "map_of out ''required''
            = (if requiredKeys shape = [] then None
               else Some (JArr (map JStr (requiredKeys shape))))"
      by (simp add: out objectSchema_required)
    show "fst ` set ?properties = fst ` set shape - {''__proto__''}" by (rule k)
    show "set (requiredKeys shape)
            = {k. \<exists>n. (k, n) \<in> set shape
                     \<and> (\<forall>i. n \<noteq> ZOptional i) \<and> (\<forall>i d. n \<noteq> ZDefault i d)}"
      by (rule set_requiredKeys)
    show "''__proto__'' \<notin> fst ` set shape
            \<longrightarrow> set (requiredKeys shape) \<subseteq> fst ` set ?properties"
      by (rule sub)
  qed
qed

lemma searchShape_translated:
  "zodSchemaToOpenAPISchema (ZObject searchShape) =
     Inr [(''type'', JStr ''object''),
          (''properties'',
             JObj [(''q'', JObj [(''type'', JStr ''string''), (''example'', JStr ''string'')]),
                   (''page'', JObj [(''type'', JStr ''number''), (''example'', JNum 123.45),
                                    (''nullable'', JBool True)]),
                   (''limit'', JObj [(''type'', JStr ''number''), (''example'', JNum 123.45),
                                     (''default'', JNum 10)])]),
          (''required'', JArr [JStr ''q'']),
          (''example'', JObj [(''q'', JStr ''string''), (''page'', JNum 123.45),
                              (''limit'', JNum 123.45)])]"
  by (simp add: searchShape_def runChecks_def setNum_def objectSchema_def requiredKeys_def
      isOptionalOrDefault_def getProp_def assignProp_def Let_def)


text \<open>
  C7, as amended. In a number node the last check decides. A check of kind \<open>min\<close> with a
  numeric value sets \<open>minimum\<close> to the value, the safe-integer bound included, and sets
  \<open>exclusiveMinimum\<close> to true unless the check says \<open>inclusive: true\<close>: also when it says
  nothing. A check of another kind, or of none, with a numeric \<open>minValue\<close> sets \<open>minimum\<close>
  only when the value is above \<open>-9007199254740991\<close> and leaves \<open>exclusiveMinimum\<close> as it
  was. The same holds of \<open>max\<close>, \<open>maximum\<close>, \<open>exclusiveMaximum\<close>, \<open>maxValue\<close> and
  \<open>9007199254740991\<close>.
\<close>

theorem number_bounds:
  assumes "zodSchemaToOpenAPISchema (ZNumber (Some cs)) = Inr base"
  shows "\<exists>out. zodSchemaToOpenAPISchema (ZNumber (Some (cs @ [Check ch]))) = Inr out
     \<and> (c_kind ch = Some ''min'' \<and> c_value ch = Some v
          \<longrightarrow> map_of out ''minimum'' = Some (JNum v)
              \<and> map_of out ''exclusiveMinimum''
                  = (if c_inclusive ch = Some True then map_of base ''exclusiveMinimum''
                     else Some (JBool True)))
     \<and> (c_kind ch = Some ''max'' \<and> c_value ch = Some v
          \<longrightarrow> map_of out ''maximum'' = Some (JNum v)
              \<and> map_of out ''exclusiveMaximum''
                  = (if c_inclusive ch = Some True then map_of base ''exclusiveMaximum''
                     else Some (JBool True)))
     \<and> (c_kind ch \<noteq> Some ''min'' \<and> c_minValue ch = Some v
          \<longrightarrow> map_of out ''minimum''
                = (if v > - 9007199254740991 then Some (JNum v) else map_of base ''minimum'')
              \<and> map_of out ''exclusiveMinimum'' = map_of base ''exclusiveMinimum'')
     \<and> (c_kind ch \<noteq> Some ''max'' \<and> c_maxValue ch = Some v
          \<longrightarrow> map_of out ''maximum''
                = (if v < 9007199254740991 then Some (JNum v) else map_of base ''maximum'')
              \<and> map_of out ''exclusiveMaximum'' = map_of base ''exclusiveMaximum'')"
proof (intro exI [of _ "numberCheck base (Check ch)"] conjI impI)
  show "zodSchemaToOpenAPISchema (ZNumber (Some (cs @ [Check ch]))) = Inr (numberCheck base (Check ch))"
    using assms by (rule translate_ZNumber_snoc)
qed (simp_all add: numberCheck_kind_min numberCheck_kind_max numberCheck_minValue
      numberCheck_maxValue)

theorem number_bounds_witness:
  "zodSchemaToOpenAPISchema (ZNumber (Some []))
     = Inr [(''type'', JStr ''number''), (''example'', JNum 123.45)]
   \<and> c_kind sentinelCheck = None
   \<and> c_minValue sentinelCheck = Some (- 9007199254740991)
   \<and> c_maxValue sentinelCheck = Some 100
   \<and> (\<exists>out. zodSchemaToOpenAPISchema (ZNumber (Some [Check sentinelCheck])) = Inr out
         \<and> map_of out ''minimum'' = None
         \<and> map_of out ''maximum'' = Some (JNum 100))"
proof -
  have b: "zodSchemaToOpenAPISchema (ZNumber (Some []))
             = Inr [(''type'', JStr ''number''), (''example'', JNum 123.45)]"
    by (simp add: runChecks_def)
  have k: "c_kind sentinelCheck = None"
    and lo: "c_minValue sentinelCheck = Some (- 9007199254740991)"
    and hi: "c_maxValue sentinelCheck = Some 100"
    by (simp_all add: sentinelCheck_def emptyCheck_def)
  from number_bounds [OF b, of sentinelCheck "- 9007199254740991"] k lo
  obtain out where o: "zodSchemaToOpenAPISchema (ZNumber (Some [Check sentinelCheck])) = Inr out"
    and mn: "map_of out ''minimum'' = None"
    by auto
  from number_bounds [OF b, of sentinelCheck 100] k hi o
  have "map_of out ''maximum'' = Some (JNum 100)"
    by auto
  with b k lo hi o mn show ?thesis by blast
qed

text \<open>
  C7 as stated fails twice: a check of kind \<open>min\<close> that does not say whether it is
  inclusive sets \<open>exclusiveMinimum\<close>, and a check of kind \<open>min\<close> whose value is the
  safe-integer bound sets \<open>minimum\<close> to it.
\<close>

theorem number_bounds_counterexample:
  "zodSchemaToOpenAPISchema
     (ZNumber (Some [Check (emptyCheck\<lparr>c_kind := Some ''min'', c_value := Some 5\<rparr>)]))
     = Inr [(''type'', JStr ''number''), (''example'', JNum 123.45),
            (''minimum'', JNum 5), (''exclusiveMinimum'', JBool True)]
   \<and> zodSchemaToOpenAPISchema
       (ZNumber (Some [Check (emptyCheck\<lparr>c_kind := Some ''min'',
                                          c_value := Some (- 9007199254740991),
                                          c_inclusive := Some True\<rparr>)]))
     = Inr [(''type'', JStr ''number''), (''example'', JNum 123.45),
            (''minimum'', JNum (- 9007199254740991))]"
  by (simp add: runChecks_def numberCheck_def numberKind_def setBound_def emptyCheck_def Let_def)

end
